theory Spec2Isabelle
  imports Main "HOL-Library.Product_Lexorder"
begin

section \<open>Data model (app/models/models.py, app/schemas/schemas.py)\<close>

text \<open>
  A Python \<open>date\<close> is modelled by its proleptic Gregorian ordinal (\<open>date.toordinal()\<close>,
  1 for 0001-01-01 up to \<open>MAXORDINAL\<close> for 9999-12-31), a naive \<open>time\<close> by the number of
  microseconds since midnight (0 up to, and excluding, \<open>day_us\<close>), and a \<open>datetime\<close> by the
  pair of both. Comparison of dates and of times is comparison of these numbers.
\<close>

type_synonym date = int
type_synonym time = int
type_synonym datetime = "date \<times> time"

definition MAXORDINAL :: int where
  "MAXORDINAL = 3652059"

definition day_us :: int where
  "day_us = 86400000000"

definition minute_us :: int where
  "minute_us = 60000000"

text \<open>\<open>time(h, m)\<close> of the datetime module.\<close>

definition time_of :: "int \<Rightarrow> int \<Rightarrow> time" where
  "time_of h m = (h * 60 + m) * minute_us"

text \<open>\<open>date.weekday()\<close>: Monday is 0, Sunday is 6.\<close>

definition weekday :: "date \<Rightarrow> int" where
  "weekday d = (d + 6) mod 7"

datatype error =
    HTTPException nat string
  | ValueError string
  | ValidationError string
  | OverflowError

text \<open>
  \<open>date + timedelta(days=n)\<close> raises OverflowError when the result leaves the range of
  representable dates.
\<close>

definition date_add_days :: "date \<Rightarrow> int \<Rightarrow> error + date" where
  "date_add_days d n =
     (if 0 < d + n \<and> d + n \<le> MAXORDINAL then Inr (d + n) else Inl OverflowError)"

text \<open>
  \<open>datetime.combine(d, t) + timedelta(minutes=m)\<close>: the timedelta is refused when its
  number of days exceeds 999999999 in magnitude, the sum when its date is out of range.
\<close>

definition datetime_add_minutes :: "date \<Rightarrow> time \<Rightarrow> int \<Rightarrow> error + datetime" where
  "datetime_add_minutes d t m =
     (if \<bar>m div 1440\<bar> > 999999999 then Inl OverflowError
      else let us = t + m * minute_us; d' = d + us div day_us
           in if 0 < d' \<and> d' \<le> MAXORDINAL then Inr (d', us mod day_us)
              else Inl OverflowError)"

datatype UserRole = DOCTOR | PATIENT

datatype AppointmentStatus = SCHEDULED | COMPLETED | CANCELLED

text \<open>The authenticated caller (\<open>current_user\<close>): only its id and role are read.\<close>

record User =
  id_usr :: int
  role :: UserRole

record Schedule =
  id_sch :: int
  doctor_id_sch :: int
  day_of_week :: int
  start_time :: time
  end_time :: time
  slot_duration :: int
  is_active :: bool
  created_at_sch :: datetime

record Appointment =
  id_apt :: int
  doctor_id :: int
  patient_id :: int
  appointment_date :: date
  appointment_time :: time
  duration :: int
  reason :: string
  status :: AppointmentStatus
  created_at :: datetime
  updated_at :: datetime

record AvailableSlot =
  date_slot :: date
  time_slot :: time
  doctor_id_slot :: int

text \<open>
  The request schemas. In the two update schemas every field is optional; \<open>None\<close> stands
  for a field that the request does not carry (\<open>dict(exclude_unset=True)\<close> leaves it out).
  A request that sets a field to null explicitly is not part of the model.
\<close>

record ScheduleCreate =
  sc_day_of_week :: int
  sc_start_time :: time
  sc_end_time :: time
  sc_slot_duration :: int

record ScheduleUpdate =
  su_day_of_week :: "int option"
  su_start_time :: "time option"
  su_end_time :: "time option"
  su_slot_duration :: "int option"
  su_is_active :: "bool option"

record AppointmentCreate =
  ac_appointment_date :: date
  ac_appointment_time :: time
  ac_reason :: string
  ac_duration :: int
  ac_doctor_id :: int

record AppointmentUpdate =
  au_appointment_date :: "date option"
  au_appointment_time :: "time option"
  au_reason :: "string option"
  au_status :: "AppointmentStatus option"

text \<open>
  The database session: the two tables, rows in insertion order. The engine is SQLite, as
  in the tests. A query on the schedules of one doctor is read through the index of the
  uniqueness constraint (doctor_id, day_of_week, start_time, end_time): where the source
  gives no order, or an order that leaves rows tied, the rows come by day of the week,
  then start time, then end time, and \<open>first()\<close> is the first of them. The users table is
  not part of the model: every doctor_id and patient_id is taken to name a user, so that
  no foreign key fails.
\<close>

record database =
  schedules :: "Schedule list"
  appointments :: "Appointment list"

text \<open>
  The integers of a request are unbounded, those of an INTEGER column have 64 bits: the
  driver refuses to bind any other value to a statement and raises OverflowError, which
  no function of the application catches, so that the session is dropped with nothing
  written. The functions below make that test on the integers they write. The ids that
  a query compares with (the id in a path, the doctor of a booking) are taken to fit.
\<close>

definition fits_INTEGER :: "int \<Rightarrow> bool" where
  "fits_INTEGER n \<longleftrightarrow> - (2 ^ 63) \<le> n \<and> n < 2 ^ 63"

text \<open>The integer primary key given to a new row: one more than the largest in the table.\<close>

definition next_id :: "int list \<Rightarrow> int" where
  "next_id ids = (if ids = [] then 1 else Max (set ids) + 1)"

definition first :: "'a list \<Rightarrow> 'a option" where
  "first rows = (case rows of [] \<Rightarrow> None | r # _ \<Rightarrow> Some r)"

section \<open>Schedules (app/crud/crud_schedule.py)\<close>

definition get_schedule :: "database \<Rightarrow> int \<Rightarrow> Schedule option" where
  "get_schedule db sid = first [s \<leftarrow> schedules db. id_sch s = sid]"

definition get_schedules_by_doctor :: "database \<Rightarrow> int \<Rightarrow> Schedule list" where
  "get_schedules_by_doctor db did =
     sort_key (\<lambda>s. (day_of_week s, start_time s, end_time s))
       [s \<leftarrow> schedules db. doctor_id_sch s = did \<and> is_active s]"

subsection \<open>get_available_slots\<close>

text \<open>
  The inner \<open>while current_time < schedule.end_time\<close> loop. Nothing bounds the number of
  its iterations, so it is a partial function: \<open>None\<close> is a loop that never ends,
  \<open>Some (Inl e)\<close> a raised exception, \<open>Some (Inr slots)\<close> the list after the loop.
\<close>

partial_function (option) slot_loop ::
  "int \<Rightarrow> date \<Rightarrow> Schedule \<Rightarrow> (date \<times> time) set \<Rightarrow> time \<Rightarrow> AvailableSlot list
     \<Rightarrow> (error + AvailableSlot list) option" where
  "slot_loop did current_date schedule booked_slots current_time available_slots =
     (if current_time < end_time schedule then
        (case datetime_add_minutes current_date current_time (slot_duration schedule) of
           Inl e \<Rightarrow> Some (Inl e)
         | Inr next_datetime \<Rightarrow>
             slot_loop did current_date schedule booked_slots (snd next_datetime)
               (if (current_date, current_time) \<notin> booked_slots
                then available_slots @
                       [\<lparr>date_slot = current_date, time_slot = current_time,
                         doctor_id_slot = did\<rparr>]
                else available_slots))
      else Some (Inr available_slots))"

text \<open>\<open>for schedule in day_schedules\<close>.\<close>

fun schedules_loop ::
  "int \<Rightarrow> date \<Rightarrow> Schedule list \<Rightarrow> (date \<times> time) set \<Rightarrow> AvailableSlot list
     \<Rightarrow> (error + AvailableSlot list) option" where
  "schedules_loop did current_date [] booked_slots available_slots =
     Some (Inr available_slots)"
| "schedules_loop did current_date (schedule # rest) booked_slots available_slots =
     (case slot_loop did current_date schedule booked_slots (start_time schedule)
             available_slots of
        None \<Rightarrow> None
      | Some (Inl e) \<Rightarrow> Some (Inl e)
      | Some (Inr slots) \<Rightarrow> schedules_loop did current_date rest booked_slots slots)"

text \<open>\<open>while current_date <= end_date\<close>.\<close>

function date_loop ::
  "int \<Rightarrow> Schedule list \<Rightarrow> (date \<times> time) set \<Rightarrow> date \<Rightarrow> date \<Rightarrow> AvailableSlot list
     \<Rightarrow> (error + AvailableSlot list) option" where
  "date_loop did scheds booked_slots current_date end_date available_slots =
     (if current_date \<le> end_date then
        (case schedules_loop did current_date
                [s \<leftarrow> scheds. day_of_week s = weekday current_date]
                booked_slots available_slots of
           None \<Rightarrow> None
         | Some (Inl e) \<Rightarrow> Some (Inl e)
         | Some (Inr slots) \<Rightarrow>
             (case date_add_days current_date 1 of
                Inl e \<Rightarrow> Some (Inl e)
              | Inr next_date \<Rightarrow>
                  date_loop did scheds booked_slots next_date end_date slots))
      else Some (Inr available_slots))"
  by pat_completeness auto
termination
  by (relation "measure (\<lambda>(did, scheds, booked_slots, current_date, end_date, available_slots).
                  nat (end_date + 1 - current_date))")
     (auto simp: date_add_days_def split: if_splits)

declare date_loop.simps [simp del]

definition get_available_slots ::
  "database \<Rightarrow> int \<Rightarrow> date \<Rightarrow> date \<Rightarrow> (error + AvailableSlot list) option" where
  "get_available_slots db did start_date end_date =
     (let scheds = get_schedules_by_doctor db did in
      if scheds = [] then Some (Inr [])
      else
        let booked_appointments =
              [apt \<leftarrow> appointments db.
                 doctor_id apt = did \<and> appointment_date apt \<ge> start_date \<and>
                 appointment_date apt \<le> end_date \<and> status apt \<noteq> CANCELLED];
            booked_slots =
              set (map (\<lambda>apt. (appointment_date apt, appointment_time apt))
                     booked_appointments)
        in date_loop did scheds booked_slots start_date end_date [])"

subsection \<open>create_schedule, update_schedule, delete_schedule\<close>

text \<open>\<open>str(n)\<close> for the count that the error messages of the guard carry.\<close>

definition digit_char :: "nat \<Rightarrow> char" where
  "digit_char n = ''0123456789'' ! n"

function str_of_nat :: "nat \<Rightarrow> string" where
  "str_of_nat n = (if n < 10 then [digit_char n] else str_of_nat (n div 10) @ [digit_char (n mod 10)])"
  by pat_completeness auto
termination
  by (relation "measure id") auto

declare str_of_nat.simps [simp del]

text \<open>The columns of \<open>UniqueConstraint('doctor_id', 'day_of_week', 'start_time', 'end_time')\<close>.\<close>

definition unique_doctor_schedule :: "Schedule \<Rightarrow> int \<times> int \<times> time \<times> time" where
  "unique_doctor_schedule s = (doctor_id_sch s, day_of_week s, start_time s, end_time s)"

definition create_schedule ::
  "database \<Rightarrow> ScheduleCreate \<Rightarrow> int \<Rightarrow> datetime \<Rightarrow> (error + Schedule) \<times> database" where
  "create_schedule db schedule did now =
     (let db_schedule =
            \<lparr>id_sch = next_id (map id_sch (schedules db)),
             doctor_id_sch = did,
             day_of_week = sc_day_of_week schedule,
             start_time = sc_start_time schedule,
             end_time = sc_end_time schedule,
             slot_duration = sc_slot_duration schedule,
             is_active = True,
             created_at_sch = now\<rparr>
      in if \<not> (fits_INTEGER (doctor_id_sch db_schedule) \<and> fits_INTEGER (day_of_week db_schedule) \<and>
                 fits_INTEGER (slot_duration db_schedule))
         then (Inl OverflowError, db)
         else if unique_doctor_schedule db_schedule \<in> set (map unique_doctor_schedule (schedules db))
         then (Inl (ValueError ''A schedule already exists for this day and time''), db)
         else (Inr db_schedule, db\<lparr>schedules := schedules db @ [db_schedule]\<rparr>))"

text \<open>
  The query that all three guards run: the doctor's SCHEDULED appointments from today on.
\<close>

definition future_appointments :: "database \<Rightarrow> int \<Rightarrow> date \<Rightarrow> Appointment list" where
  "future_appointments db did today =
     [apt \<leftarrow> appointments db.
        doctor_id apt = did \<and> appointment_date apt \<ge> today \<and> status apt = SCHEDULED]"

text \<open>The appointments that the deactivation branch and delete_schedule collect.\<close>

definition conflicting_inside :: "database \<Rightarrow> Schedule \<Rightarrow> date \<Rightarrow> Appointment list" where
  "conflicting_inside db schedule today =
     [apt \<leftarrow> future_appointments db (doctor_id_sch schedule) today.
        weekday (appointment_date apt) = day_of_week schedule \<and>
        start_time schedule \<le> appointment_time apt \<and>
        appointment_time apt < end_time schedule]"

text \<open>The appointments that the branch for a change of start_time or end_time collects.\<close>

definition conflicting_outside ::
  "database \<Rightarrow> Schedule \<Rightarrow> time \<Rightarrow> time \<Rightarrow> date \<Rightarrow> Appointment list" where
  "conflicting_outside db schedule new_start new_end today =
     [apt \<leftarrow> future_appointments db (doctor_id_sch schedule) today.
        weekday (appointment_date apt) = day_of_week schedule \<and>
        \<not> (new_start \<le> appointment_time apt \<and> appointment_time apt < new_end)]"

text \<open>\<open>for field, value in update_data.items(): setattr(schedule, field, value)\<close>.\<close>

definition setattr_schedule :: "Schedule \<Rightarrow> ScheduleUpdate \<Rightarrow> Schedule" where
  "setattr_schedule schedule u =
     schedule\<lparr>day_of_week := (case su_day_of_week u of None \<Rightarrow> day_of_week schedule | Some v \<Rightarrow> v),
              start_time := (case su_start_time u of None \<Rightarrow> start_time schedule | Some v \<Rightarrow> v),
              end_time := (case su_end_time u of None \<Rightarrow> end_time schedule | Some v \<Rightarrow> v),
              slot_duration := (case su_slot_duration u of None \<Rightarrow> slot_duration schedule | Some v \<Rightarrow> v),
              is_active := (case su_is_active u of None \<Rightarrow> is_active schedule | Some v \<Rightarrow> v)\<rparr>"

definition update_schedule ::
  "database \<Rightarrow> int \<Rightarrow> ScheduleUpdate \<Rightarrow> date \<Rightarrow> (error + Schedule option) \<times> database" where
  "update_schedule db sid schedule_update today =
     (case get_schedule db sid of
        None \<Rightarrow> (Inr None, db)
      | Some schedule \<Rightarrow>
          if su_is_active schedule_update = Some False \<and>
             conflicting_inside db schedule today \<noteq> []
          then (Inl (ValueError (''Cannot deactivate schedule: '' @
                       str_of_nat (length (conflicting_inside db schedule today)) @
                       '' appointments would be affected'')), db)
          else
            let new_start = (case su_start_time schedule_update of
                               None \<Rightarrow> start_time schedule | Some v \<Rightarrow> v);
                new_end = (case su_end_time schedule_update of
                             None \<Rightarrow> end_time schedule | Some v \<Rightarrow> v)
            in
            if (su_start_time schedule_update \<noteq> None \<or> su_end_time schedule_update \<noteq> None) \<and>
               conflicting_outside db schedule new_start new_end today \<noteq> []
            then (Inl (ValueError (''Cannot modify schedule: '' @
                         str_of_nat (length (conflicting_outside db schedule new_start new_end today)) @
                         '' appointments would be outside new hours'')), db)
            else
              let updated = setattr_schedule schedule schedule_update in
              if (day_of_week updated \<noteq> day_of_week schedule \<and>
                  \<not> fits_INTEGER (day_of_week updated)) \<or>
                 (slot_duration updated \<noteq> slot_duration schedule \<and>
                  \<not> fits_INTEGER (slot_duration updated))
              then (Inl OverflowError, db)
              else if unique_doctor_schedule updated \<noteq> unique_doctor_schedule schedule \<and>
                 unique_doctor_schedule updated \<in> set (map unique_doctor_schedule (schedules db))
              then (Inl (ValueError ''A schedule already exists for this day and time''), db)
              else (Inr (Some updated),
                    db\<lparr>schedules := map (\<lambda>r. if id_sch r = sid then updated else r) (schedules db)\<rparr>))"

definition delete_schedule ::
  "database \<Rightarrow> int \<Rightarrow> date \<Rightarrow> (error + bool) \<times> database" where
  "delete_schedule db sid today =
     (case get_schedule db sid of
        None \<Rightarrow> (Inr False, db)
      | Some schedule \<Rightarrow>
          if conflicting_inside db schedule today \<noteq> []
          then (Inl (ValueError (''Cannot delete schedule: '' @
                       str_of_nat (length (conflicting_inside db schedule today)) @
                       '' appointments would be affected'')), db)
          else (Inr True, db\<lparr>schedules := [r \<leftarrow> schedules db. id_sch r \<noteq> sid]\<rparr>))"

section \<open>Appointments (app/crud/crud_appointment.py)\<close>

text \<open>
  The columns of \<open>UniqueConstraint('doctor_id', 'appointment_date', 'appointment_time')\<close>.
  The constraint is on every row of the table, whatever its status; a commit that would
  break it raises IntegrityError, which the functions below turn into a ValueError after
  the rollback.
\<close>

definition unique_doctor_appointment_slot :: "Appointment \<Rightarrow> int \<times> date \<times> time" where
  "unique_doctor_appointment_slot a = (doctor_id a, appointment_date a, appointment_time a)"

definition create_appointment ::
  "database \<Rightarrow> AppointmentCreate \<Rightarrow> int \<Rightarrow> datetime \<Rightarrow> (error + Appointment) \<times> database" where
  "create_appointment db appointment pid now =
     (let db_appointment =
            \<lparr>id_apt = next_id (map id_apt (appointments db)),
             doctor_id = ac_doctor_id appointment,
             patient_id = pid,
             appointment_date = ac_appointment_date appointment,
             appointment_time = ac_appointment_time appointment,
             duration = ac_duration appointment,
             reason = ac_reason appointment,
             status = SCHEDULED,
             created_at = now,
             updated_at = now\<rparr>
      in if \<not> (fits_INTEGER (doctor_id db_appointment) \<and> fits_INTEGER (patient_id db_appointment) \<and>
                 fits_INTEGER (duration db_appointment))
         then (Inl OverflowError, db)
         else if unique_doctor_appointment_slot db_appointment
              \<in> set (map unique_doctor_appointment_slot (appointments db))
         then (Inl (ValueError ''This time slot is already booked''), db)
         else (Inr db_appointment, db\<lparr>appointments := appointments db @ [db_appointment]\<rparr>))"

definition get_appointment :: "database \<Rightarrow> int \<Rightarrow> Appointment option" where
  "get_appointment db aid = first [a \<leftarrow> appointments db. id_apt a = aid]"

text \<open>\<open>for field, value in update_data.items(): setattr(appointment, field, value)\<close>.\<close>

definition setattr_appointment :: "Appointment \<Rightarrow> AppointmentUpdate \<Rightarrow> Appointment" where
  "setattr_appointment appointment u =
     appointment\<lparr>appointment_date := (case au_appointment_date u of
                                         None \<Rightarrow> appointment_date appointment | Some v \<Rightarrow> v),
                 appointment_time := (case au_appointment_time u of
                                         None \<Rightarrow> appointment_time appointment | Some v \<Rightarrow> v),
                 reason := (case au_reason u of None \<Rightarrow> reason appointment | Some v \<Rightarrow> v),
                 status := (case au_status u of None \<Rightarrow> status appointment | Some v \<Rightarrow> v)\<rparr>"

text \<open>
  The commit writes the row only when an attribute has changed, and the column
  \<open>updated_at\<close> (\<open>onupdate=datetime.utcnow\<close>) is set by that write.
\<close>

definition update_appointment ::
  "database \<Rightarrow> int \<Rightarrow> AppointmentUpdate \<Rightarrow> datetime \<Rightarrow> (error + Appointment option) \<times> database" where
  "update_appointment db aid appointment_update now =
     (case get_appointment db aid of
        None \<Rightarrow> (Inr None, db)
      | Some appointment \<Rightarrow>
          let updated = setattr_appointment appointment appointment_update in
          if updated = appointment then (Inr (Some appointment), db)
          else if unique_doctor_appointment_slot updated \<noteq> unique_doctor_appointment_slot appointment \<and>
                  unique_doctor_appointment_slot updated
                    \<in> set (map unique_doctor_appointment_slot (appointments db))
          then (Inl (ValueError ''This time slot is already booked''), db)
          else
            let row = updated\<lparr>updated_at := now\<rparr>
            in (Inr (Some row),
                db\<lparr>appointments := map (\<lambda>r. if id_apt r = aid then row else r) (appointments db)\<rparr>))"


definition check_slot_availability ::
  "database \<Rightarrow> int \<Rightarrow> date \<Rightarrow> time \<Rightarrow> int option \<Rightarrow> bool" where
  "check_slot_availability db did a_date a_time exclude_appointment_id =
     (case first (sort_key (\<lambda>s. (start_time s, end_time s))
                    [s \<leftarrow> schedules db.
                       doctor_id_sch s = did \<and> day_of_week s = weekday a_date \<and> is_active s]) of
        None \<Rightarrow> False
      | Some schedule \<Rightarrow>
          if \<not> (start_time schedule \<le> a_time \<and> a_time < end_time schedule) then False
          else
            let query = [a \<leftarrow> appointments db.
                           doctor_id a = did \<and> appointment_date a = a_date \<and>
                           appointment_time a = a_time \<and> status a \<noteq> CANCELLED];
                query' = (case exclude_appointment_id of
                            None \<Rightarrow> query
                          | Some x \<Rightarrow> if x \<noteq> 0 then [a \<leftarrow> query. id_apt a \<noteq> x] else query)
            in first query' = None)"

section \<open>Request validation (app/schemas/schemas.py)\<close>

text \<open>
  The validators of the two creation schemas; a failure is the ValidationError that the
  framework answers with status 422 before the endpoint runs. \<open>ScheduleUpdate\<close> and
  \<open>AppointmentUpdate\<close> declare no validator.
\<close>

definition validate_day_of_week :: "int \<Rightarrow> error + int" where
  "validate_day_of_week v =
     (if \<not> (0 \<le> v \<and> v \<le> 6)
      then Inl (ValidationError ''Day of week must be between 0 (Monday) and 6 (Sunday)'')
      else Inr v)"

definition validate_times :: "time \<Rightarrow> time \<Rightarrow> error + time" where
  "validate_times v start = 
     (if v \<le> start then Inl (ValidationError ''End time must be after start time'')
      else Inr v)"

definition validate_ScheduleCreate :: "ScheduleCreate \<Rightarrow> error + ScheduleCreate" where
  "validate_ScheduleCreate schedule =
     (case validate_day_of_week (sc_day_of_week schedule) of
        Inl e \<Rightarrow> Inl e
      | Inr _ \<Rightarrow>
          (case validate_times (sc_end_time schedule) (sc_start_time schedule) of
             Inl e \<Rightarrow> Inl e
           | Inr _ \<Rightarrow> Inr schedule))"

definition validate_future_date :: "date \<Rightarrow> date \<Rightarrow> error + date" where
  "validate_future_date today v =
     (if v < today then Inl (ValidationError ''Appointment date must be in the future'')
      else Inr v)"

definition validate_AppointmentCreate :: "date \<Rightarrow> AppointmentCreate \<Rightarrow> error + AppointmentCreate" where
  "validate_AppointmentCreate today appointment =
     (case validate_future_date today (ac_appointment_date appointment) of
        Inl e \<Rightarrow> Inl e
      | Inr _ \<Rightarrow> Inr appointment)"

section \<open>Endpoints (app/api/v1/appointments.py, app/api/v1/schedules.py)\<close>

text \<open>\<open>except ValueError as e: raise HTTPException(status_code=400, detail=str(e))\<close>.\<close>

definition except_ValueError :: "(error + 'a) \<times> database \<Rightarrow> (error + 'a) \<times> database" where
  "except_ValueError r =
     (case r of
        (Inl (ValueError e), db) \<Rightarrow> (Inl (HTTPException 400 e), db)
      | _ \<Rightarrow> r)"

definition create_new_appointment ::
  "database \<Rightarrow> AppointmentCreate \<Rightarrow> User \<Rightarrow> datetime \<Rightarrow> (error + Appointment) \<times> database" where
  "create_new_appointment db appointment current_user now =
     (if role current_user \<noteq> PATIENT
      then (Inl (HTTPException 403 ''Only patients can book appointments''), db)
      else if \<not> check_slot_availability db (ac_doctor_id appointment)
                   (ac_appointment_date appointment) (ac_appointment_time appointment) None
      then (Inl (HTTPException 400 ''This time slot is not available''), db)
      else except_ValueError (create_appointment db appointment (id_usr current_user) now))"

definition update_appointment_by_id ::
  "database \<Rightarrow> int \<Rightarrow> AppointmentUpdate \<Rightarrow> User \<Rightarrow> datetime
     \<Rightarrow> (error + Appointment option) \<times> database" where
  "update_appointment_by_id db aid appointment_update current_user now =
     (case get_appointment db aid of
        None \<Rightarrow> (Inl (HTTPException 404 ''Appointment not found''), db)
      | Some appointment \<Rightarrow>
          if role current_user = PATIENT \<and> patient_id appointment \<noteq> id_usr current_user
          then (Inl (HTTPException 403 ''You can only update your own appointments''), db)
          else if role current_user = PATIENT \<and> au_status appointment_update \<noteq> None \<and>
                  au_status appointment_update \<noteq> Some CANCELLED
          then (Inl (HTTPException 403 ''Patients can only cancel appointments''), db)
          else if role current_user = DOCTOR \<and> doctor_id appointment \<noteq> id_usr current_user
          then (Inl (HTTPException 403 ''You can only update appointments for your patients''), db)
          else
            let new_date = (case au_appointment_date appointment_update of
                              None \<Rightarrow> appointment_date appointment | Some v \<Rightarrow> v);
                new_time = (case au_appointment_time appointment_update of
                              None \<Rightarrow> appointment_time appointment | Some v \<Rightarrow> v)
            in
            if (au_appointment_date appointment_update \<noteq> None \<or>
                au_appointment_time appointment_update \<noteq> None) \<and>
               \<not> check_slot_availability db (doctor_id appointment) new_date new_time (Some aid)
            then (Inl (HTTPException 400 ''The new time slot is not available''), db)
            else update_appointment db aid appointment_update now)"

definition cancel_appointment ::
  "database \<Rightarrow> int \<Rightarrow> User \<Rightarrow> datetime \<Rightarrow> (error + string) \<times> database" where
  "cancel_appointment db aid current_user now =
     (case get_appointment db aid of
        None \<Rightarrow> (Inl (HTTPException 404 ''Appointment not found''), db)
      | Some appointment \<Rightarrow>
          if role current_user = PATIENT \<and> patient_id appointment \<noteq> id_usr current_user
          then (Inl (HTTPException 403 ''You can only cancel your own appointments''), db)
          else if role current_user = DOCTOR \<and> doctor_id appointment \<noteq> id_usr current_user
          then (Inl (HTTPException 403 ''You can only cancel appointments for your patients''), db)
          else
            (case update_appointment db aid
                    \<lparr>au_appointment_date = None, au_appointment_time = None,
                     au_reason = None, au_status = Some CANCELLED\<rparr> now of
               (Inl e, db') \<Rightarrow> (Inl e, db')
             | (Inr _, db') \<Rightarrow> (Inr ''Appointment cancelled successfully'', db')))"

definition create_doctor_schedule ::
  "database \<Rightarrow> ScheduleCreate \<Rightarrow> User \<Rightarrow> datetime \<Rightarrow> (error + Schedule) \<times> database" where
  "create_doctor_schedule db schedule current_user now =
     (if role current_user \<noteq> DOCTOR
      then (Inl (HTTPException 403 ''Only doctors can create schedules''), db)
      else except_ValueError (create_schedule db schedule (id_usr current_user) now))"

definition update_doctor_schedule ::
  "database \<Rightarrow> int \<Rightarrow> ScheduleUpdate \<Rightarrow> User \<Rightarrow> date \<Rightarrow> (error + Schedule) \<times> database" where
  "update_doctor_schedule db sid schedule_update current_user today =
     (case get_schedule db sid of
        None \<Rightarrow> (Inl (HTTPException 404 ''Schedule not found''), db)
      | Some schedule \<Rightarrow>
          if doctor_id_sch schedule \<noteq> id_usr current_user
          then (Inl (HTTPException 403 ''You can only update your own schedules''), db)
          else
            (case update_schedule db sid schedule_update today of
               (Inl (ValueError e), db') \<Rightarrow> (Inl (HTTPException 400 e), db')
             | (Inl e, db') \<Rightarrow> (Inl e, db')
             | (Inr None, db') \<Rightarrow> (Inl (HTTPException 404 ''Schedule not found''), db')
             | (Inr (Some updated_schedule), db') \<Rightarrow> (Inr updated_schedule, db')))"

definition delete_doctor_schedule ::
  "database \<Rightarrow> int \<Rightarrow> User \<Rightarrow> date \<Rightarrow> (error + string) \<times> database" where
  "delete_doctor_schedule db sid current_user today =
     (case get_schedule db sid of
        None \<Rightarrow> (Inl (HTTPException 404 ''Schedule not found''), db)
      | Some schedule \<Rightarrow>
          if doctor_id_sch schedule \<noteq> id_usr current_user
          then (Inl (HTTPException 403 ''You can only delete your own schedules''), db)
          else
            (case delete_schedule db sid today of
               (Inl (ValueError e), db') \<Rightarrow> (Inl (HTTPException 400 e), db')
             | (Inl e, db') \<Rightarrow> (Inl e, db')
             | (Inr _, db') \<Rightarrow> (Inr ''Schedule deleted successfully'', db')))"

definition get_doctor_available_slots ::
  "database \<Rightarrow> int \<Rightarrow> date \<Rightarrow> date \<Rightarrow> (error + AvailableSlot list) option" where
  "get_doctor_available_slots db did start_date end_date =
     (if end_date < start_date
      then Some (Inl (HTTPException 400 ''End date must be after start date''))
      else if end_date - start_date > 30
      then Some (Inl (HTTPException 400 ''Date range cannot exceed 30 days''))
      else get_available_slots db did start_date end_date)"

section \<open>Sequences of requests\<close>

text \<open>
  The requests that write to the database, each with the caller and the clock reading it
  is served with, and the state that a sequence of them leaves, starting from the empty
  tables.
\<close>

datatype request =
    BookSlot AppointmentCreate User datetime
  | UpdateAppointment int AppointmentUpdate User datetime
  | CancelAppointment int User datetime
  | DefineWindow ScheduleCreate User datetime
  | UpdateWindow int ScheduleUpdate User date
  | RemoveWindow int User date

fun handle :: "database \<Rightarrow> request \<Rightarrow> database" where
  "handle db (BookSlot appointment u now) = snd (create_new_appointment db appointment u now)"
| "handle db (UpdateAppointment aid upd u now) = snd (update_appointment_by_id db aid upd u now)"
| "handle db (CancelAppointment aid u now) = snd (cancel_appointment db aid u now)"
| "handle db (DefineWindow schedule u now) = snd (create_doctor_schedule db schedule u now)"
| "handle db (UpdateWindow sid upd u today) = snd (update_doctor_schedule db sid upd u today)"
| "handle db (RemoveWindow sid u today) = snd (delete_doctor_schedule db sid u today)"

text \<open>
  A request that the framework lets through to its endpoint: the body of a creation
  request has passed the validators of its schema (with \<open>date.today()\<close> as given).
\<close>

fun validated :: "date \<Rightarrow> request \<Rightarrow> bool" where
  "validated today (BookSlot appointment u now) \<longleftrightarrow>
     validate_AppointmentCreate today appointment = Inr appointment"
| "validated today (DefineWindow schedule u now) \<longleftrightarrow>
     validate_ScheduleCreate schedule = Inr schedule"
| "validated today (UpdateAppointment aid upd u now) \<longleftrightarrow> True"
| "validated today (CancelAppointment aid u now) \<longleftrightarrow> True"
| "validated today (UpdateWindow sid upd u today') \<longleftrightarrow> True"
| "validated today (RemoveWindow sid u today') \<longleftrightarrow> True"

definition empty_db :: database where
  "empty_db = \<lparr>schedules = [], appointments = []\<rparr>"

definition run :: "request list \<Rightarrow> database" where
  "run requests = foldl handle empty_db requests"

section \<open>Notions used in the statements\<close>

text \<open>
  The primary key and the uniqueness constraint of the appointments table: no two rows
  share an id, and no two rows share (doctor_id, appointment_date, appointment_time).
\<close>

definition table_ok :: "database \<Rightarrow> bool" where
  "table_ok db \<longleftrightarrow>
     distinct (map id_apt (appointments db)) \<and>
     distinct (map unique_doctor_appointment_slot (appointments db))"

text \<open>
  Update requests with a single purpose: \<open>AppointmentUpdate(status=s)\<close>, a move of an
  appointment to another date and time, and a new start or a new end of a window.
\<close>

definition status_only :: "AppointmentStatus \<Rightarrow> AppointmentUpdate" where
  "status_only s = \<lparr>au_appointment_date = None, au_appointment_time = None,
                    au_reason = None, au_status = Some s\<rparr>"


definition start_at :: "time \<Rightarrow> ScheduleUpdate" where
  "start_at t = \<lparr>su_day_of_week = None, su_start_time = Some t, su_end_time = None,
                 su_slot_duration = None, su_is_active = None\<rparr>"

definition end_at :: "time \<Rightarrow> ScheduleUpdate" where
  "end_at t = \<lparr>su_day_of_week = None, su_start_time = None, su_end_time = Some t,
               su_slot_duration = None, su_is_active = None\<rparr>"

text \<open>
  \<open>AvailableSlot(date=d, time=t, doctor_id=did)\<close>; the (date, time) of a slot, compared
  lexicographically; the booked (date, time) pairs that get_available_slots looks up; a
  window whose slots all stay within the day.
\<close>

definition slot :: "int \<Rightarrow> date \<Rightarrow> time \<Rightarrow> AvailableSlot" where
  "slot did d t = \<lparr>date_slot = d, time_slot = t, doctor_id_slot = did\<rparr>"

definition slot_key :: "AvailableSlot \<Rightarrow> date \<times> time" where
  "slot_key s = (date_slot s, time_slot s)"

definition booked_slots_of :: "database \<Rightarrow> int \<Rightarrow> date \<Rightarrow> date \<Rightarrow> (date \<times> time) set" where
  "booked_slots_of db did start_date end_date =
     set (map (\<lambda>apt. (appointment_date apt, appointment_time apt))
            [apt \<leftarrow> appointments db.
               doctor_id apt = did \<and> appointment_date apt \<ge> start_date \<and>
               appointment_date apt \<le> end_date \<and> status apt \<noteq> CANCELLED])"

definition no_wrap :: "Schedule \<Rightarrow> bool" where
  "no_wrap w \<longleftrightarrow> 0 < slot_duration w \<and> 0 \<le> start_time w \<and>
                 end_time w + slot_duration w * minute_us \<le> day_us"

text \<open>The full hours of the day.\<close>

definition on_the_hour :: "time \<Rightarrow> bool" where
  "on_the_hour t \<longleftrightarrow> t \<in> (\<lambda>k. k * (60 * minute_us)) ` {0..<24}"

section \<open>Example states\<close>

subsection \<open>One window, one booking\<close>

text \<open>
  A doctor (user 1) and a patient (user 2); Monday 2024-01-01 as today, with the Tuesday
  after it; the doctor's Tuesday window from 9:00 to 17:00 in slots of 30 minutes, and
  the patient's booking at 10:00 on that Tuesday.
\<close>

definition example_doctor :: User where
  "example_doctor = \<lparr>id_usr = 1, role = DOCTOR\<rparr>"

definition example_patient :: User where
  "example_patient = \<lparr>id_usr = 2, role = PATIENT\<rparr>"

definition monday :: date where
  "monday = 738886"

definition tuesday :: date where
  "tuesday = 738887"

definition example_now :: datetime where
  "example_now = (monday, time_of 8 0)"

definition example_later :: datetime where
  "example_later = (monday, time_of 8 30)"

definition window_9_17 :: ScheduleCreate where
  "window_9_17 = \<lparr>sc_day_of_week = 1, sc_start_time = time_of 9 0,
                   sc_end_time = time_of 17 0, sc_slot_duration = 30\<rparr>"

definition booking_10 :: AppointmentCreate where
  "booking_10 = \<lparr>ac_appointment_date = tuesday, ac_appointment_time = time_of 10 0,
                  ac_reason = ''General checkup'', ac_duration = 30, ac_doctor_id = 1\<rparr>"

definition schedule_9_17 :: Schedule where
  "schedule_9_17 = \<lparr>id_sch = 1, doctor_id_sch = 1, day_of_week = 1, start_time = time_of 9 0,
                     end_time = time_of 17 0, slot_duration = 30, is_active = True,
                     created_at_sch = example_now\<rparr>"

definition appointment_10 :: Appointment where
  "appointment_10 = \<lparr>id_apt = 1, doctor_id = 1, patient_id = 2, appointment_date = tuesday,
                      appointment_time = time_of 10 0, duration = 30,
                      reason = ''General checkup'', status = SCHEDULED,
                      created_at = example_now, updated_at = example_now\<rparr>"

definition db_window :: database where
  "db_window = \<lparr>schedules = [schedule_9_17], appointments = []\<rparr>"

definition db_booked :: database where
  "db_booked = \<lparr>schedules = [schedule_9_17], appointments = [appointment_10]\<rparr>"

definition booked_requests :: "request list" where
  "booked_requests = [DefineWindow window_9_17 example_doctor example_now,
                      BookSlot booking_10 example_patient example_now]"

definition update_reason :: AppointmentUpdate where
  "update_reason = \<lparr>au_appointment_date = None, au_appointment_time = None,
                     au_reason = Some ''Follow-up'', au_status = None\<rparr>"

text \<open>The same booking, cancelled by the patient half an hour later.\<close>

definition appointment_10_cancelled :: Appointment where
  "appointment_10_cancelled = appointment_10\<lparr>status := CANCELLED, updated_at := example_later\<rparr>"

definition db_cancelled :: database where
  "db_cancelled = \<lparr>schedules = [schedule_9_17], appointments = [appointment_10_cancelled]\<rparr>"

definition cancelled_requests :: "request list" where
  "cancelled_requests = booked_requests @ [CancelAppointment 1 example_patient example_later]"






text \<open>The same window requested with a slot duration of 0.\<close>

definition window_zero :: ScheduleCreate where
  "window_zero = window_9_17\<lparr>sc_slot_duration := 0\<rparr>"

subsection \<open>Two windows on one day\<close>

text \<open>
  A doctor defines a Tuesday window from 13:00 to 17:00, the patient books 14:00 in it,
  and the doctor then defines a second Tuesday window from 9:00 to 12:00; the slots that
  are then free on that Tuesday.
\<close>

definition window_13_17 :: ScheduleCreate where
  "window_13_17 = \<lparr>sc_day_of_week = 1, sc_start_time = time_of 13 0,
                    sc_end_time = time_of 17 0, sc_slot_duration = 30\<rparr>"

definition window_9_12 :: ScheduleCreate where
  "window_9_12 = \<lparr>sc_day_of_week = 1, sc_start_time = time_of 9 0,
                   sc_end_time = time_of 12 0, sc_slot_duration = 30\<rparr>"

definition booking_14 :: AppointmentCreate where
  "booking_14 = booking_10\<lparr>ac_appointment_time := time_of 14 0\<rparr>"

definition schedule_13_17 :: Schedule where
  "schedule_13_17 = schedule_9_17\<lparr>start_time := time_of 13 0\<rparr>"

definition schedule_9_12 :: Schedule where
  "schedule_9_12 = schedule_9_17\<lparr>id_sch := 2, end_time := time_of 12 0\<rparr>"

definition appointment_14 :: Appointment where
  "appointment_14 = appointment_10\<lparr>appointment_time := time_of 14 0\<rparr>"

definition db_two_windows :: database where
  "db_two_windows =
     \<lparr>schedules = [schedule_13_17, schedule_9_12], appointments = [appointment_14]\<rparr>"

definition two_window_requests :: "request list" where
  "two_window_requests = [DefineWindow window_13_17 example_doctor example_now,
                          BookSlot booking_14 example_patient example_now,
                          DefineWindow window_9_12 example_doctor example_now]"

definition slots_two_windows :: "AvailableSlot list" where
  "slots_two_windows = map (slot 1 tuesday)
     [time_of 9 0, time_of 9 30, time_of 10 0, time_of 10 30, time_of 11 0, time_of 11 30,
      time_of 13 0, time_of 13 30, time_of 14 30, time_of 15 0, time_of 15 30,
      time_of 16 0, time_of 16 30]"

text \<open>A doctor with two overlapping Tuesday windows, 9:00 to 10:30 and 9:30 to 10:30.\<close>

definition schedule_9_1030 :: Schedule where
  "schedule_9_1030 = schedule_9_17\<lparr>end_time := time_of 10 30\<rparr>"

definition schedule_930_1030 :: Schedule where
  "schedule_930_1030 =
     schedule_9_17\<lparr>id_sch := 2, start_time := time_of 9 30, end_time := time_of 10 30\<rparr>"

definition db_overlap :: database where
  "db_overlap = \<lparr>schedules = [schedule_9_1030, schedule_930_1030], appointments = []\<rparr>"

definition overlap_requests :: "request list" where
  "overlap_requests =
     [DefineWindow (window_9_17\<lparr>sc_end_time := time_of 10 30\<rparr>) example_doctor example_now,
      DefineWindow (window_9_17\<lparr>sc_start_time := time_of 9 30, sc_end_time := time_of 10 30\<rparr>)
        example_doctor example_now]"

subsection \<open>Windows at the end of the day and on the last date\<close>

text \<open>A Tuesday window from 22:00 to 23:30 in slots of 60 minutes.\<close>

definition schedule_late :: Schedule where
  "schedule_late = schedule_9_17\<lparr>start_time := time_of 22 0, end_time := time_of 23 30,
                                   slot_duration := 60\<rparr>"

definition db_late :: database where
  "db_late = \<lparr>schedules = [schedule_late], appointments = []\<rparr>"

definition late_requests :: "request list" where
  "late_requests =
     [DefineWindow \<lparr>sc_day_of_week = 1, sc_start_time = time_of 22 0,
                    sc_end_time = time_of 23 30, sc_slot_duration = 60\<rparr>
        example_doctor example_now]"

text \<open>
  The 9:00 to 17:00 window on Fridays, the sixteen half hours from 9:00 to 16:30, and
  Friday 2024-01-05.
\<close>

definition schedule_friday :: Schedule where
  "schedule_friday = schedule_9_17\<lparr>day_of_week := 4\<rparr>"

definition db_friday :: database where
  "db_friday = \<lparr>schedules = [schedule_friday], appointments = []\<rparr>"

definition friday_requests :: "request list" where
  "friday_requests = [DefineWindow (window_9_17\<lparr>sc_day_of_week := 4\<rparr>) example_doctor example_now]"

definition half_hours_9_17 :: "time list" where
  "half_hours_9_17 =
     [time_of 9 0, time_of 9 30, time_of 10 0, time_of 10 30, time_of 11 0, time_of 11 30,
      time_of 12 0, time_of 12 30, time_of 13 0, time_of 13 30, time_of 14 0, time_of 14 30,
      time_of 15 0, time_of 15 30, time_of 16 0, time_of 16 30]"

definition friday :: date where
  "friday = 738890"

section \<open>Queries and row updates\<close>

lemma first_filter_Some:
  "first [r \<leftarrow> rows. P r] = Some a \<Longrightarrow> a \<in> set rows \<and> P a"
  by (induction rows) (auto simp: first_def split: if_splits)

lemma first_None: "first rows = None \<longleftrightarrow> rows = []"
  by (cases rows) (simp_all add: first_def)

lemma first_filter_map_update:
  "first [r \<leftarrow> rows. id_apt r = aid] = Some a \<Longrightarrow> id_apt row = aid \<Longrightarrow>
   first [r \<leftarrow> map (\<lambda>r. if id_apt r = aid then row else r) rows. id_apt r = aid] = Some row"
  by (induction rows) (auto simp: first_def split: if_splits)

lemma filter_others_map_update:
  "id_apt row = aid \<Longrightarrow>
   [r \<leftarrow> map (\<lambda>r. if id_apt r = aid then row else r) rows. id_apt r \<noteq> aid] =
   [r \<leftarrow> rows. id_apt r \<noteq> aid]"
  by (induction rows) auto


lemma get_appointment_Some:
  "get_appointment db aid = Some a \<Longrightarrow> id_apt a = aid \<and> a \<in> set (appointments db)"
  unfolding get_appointment_def by (drule first_filter_Some) simp

lemma get_appointment_after_write:
  assumes "get_appointment db aid = Some a" "id_apt row = aid"
  shows "get_appointment
           (db\<lparr>appointments := map (\<lambda>r. if id_apt r = aid then row else r) (appointments db)\<rparr>)
           aid = Some row"
  using assms first_filter_map_update[where rows = "appointments db" and aid = aid and a = a and row = row]
  by (simp add: get_appointment_def)



lemma next_id_fresh: "next_id ids \<notin> set ids"
proof
  assume a: "next_id ids \<in> set ids"
  then have ne: "ids \<noteq> []" by auto
  with a Max_ge[OF finite_set a] have "Max (set ids) + 1 \<le> Max (set ids)"
    by (simp add: next_id_def)
  then show False by simp
qed

lemma map_update_ids:
  "id_apt row = aid \<Longrightarrow> map id_apt (map (\<lambda>r. if id_apt r = aid then row else r) rows) = map id_apt rows"
  by (induction rows) auto

lemma distinct_map_update:
  assumes "distinct (map k rows)" "distinct (map id_apt rows)" "a \<in> set rows" "id_apt a = aid"
    "k row = k a \<or> k row \<notin> set (map k rows)"
  shows "distinct (map k (map (\<lambda>r. if id_apt r = aid then row else r) rows))"
  using assms
proof (induction rows)
  case Nil
  then show ?case by simp
next
  case (Cons x xs)
  show ?case
  proof (cases "id_apt x = aid")
    case True
    with Cons.prems have xa: "x = a" by force
    from Cons.prems(2) have "id_apt x \<notin> id_apt ` set xs" by simp
    with True have "\<forall>r \<in> set xs. id_apt r \<noteq> aid" by blast
    then have same: "map (\<lambda>r. if id_apt r = aid then row else r) xs = xs"
      by (induction xs) auto
    from Cons.prems xa have "k row \<notin> set (map k xs)" by auto
    with True same Cons.prems show ?thesis by simp
  next
    case False
    with Cons.prems have ain: "a \<in> set xs" by auto
    from Cons.prems have ih: "distinct (map k (map (\<lambda>r. if id_apt r = aid then row else r) xs))"
      using Cons.IH ain by auto
    from Cons.prems ain have "k row \<noteq> k x" by force
    moreover from Cons.prems have "k x \<notin> set (map k xs)" by simp
    ultimately have "k x \<notin> set (map k (map (\<lambda>r. if id_apt r = aid then row else r) xs))"
      by (auto split: if_splits)
    with False ih show ?thesis by simp
  qed
qed

lemma except_ValueError_snd: "snd (except_ValueError r) = snd r"
  by (auto simp: except_ValueError_def split: prod.splits sum.splits error.splits)

lemma run_append: "run (requests @ [rq]) = handle (run requests) rq"
  by (simp add: run_def)

section \<open>The example states\<close>

lemmas example_defs = example_doctor_def example_patient_def monday_def tuesday_def example_now_def
  window_9_17_def booking_10_def schedule_9_17_def appointment_10_def db_booked_def

lemmas crud_defs = fits_INTEGER_def create_schedule_def create_appointment_def update_appointment_def
  get_appointment_def check_slot_availability_def setattr_appointment_def next_id_def first_def
  weekday_def unique_doctor_schedule_def unique_doctor_appointment_slot_def
  time_of_def minute_us_def Let_def

lemmas two_window_defs = window_13_17_def window_9_12_def booking_14_def schedule_13_17_def
  schedule_9_12_def appointment_14_def db_two_windows_def two_window_requests_def start_at_def

lemma get_appointment_db_booked: "get_appointment db_booked 1 = Some appointment_10"
  by (simp add: get_appointment_def db_booked_def appointment_10_def first_def)

lemma get_appointment_db_cancelled: "get_appointment db_cancelled 1 = Some appointment_10_cancelled"
  by (simp add: get_appointment_def db_cancelled_def appointment_10_cancelled_def
        appointment_10_def first_def)

lemma run_booked_requests: "run booked_requests = db_booked"
  by (simp add: run_def booked_requests_def empty_db_def create_doctor_schedule_def
        fits_INTEGER_def create_schedule_def create_new_appointment_def create_appointment_def
        check_slot_availability_def except_ValueError_def next_id_def first_def weekday_def
        unique_doctor_schedule_def unique_doctor_appointment_slot_def time_of_def minute_us_def
        example_defs Let_def)

lemma run_cancelled_requests: "run cancelled_requests = db_cancelled"
  unfolding cancelled_requests_def run_append run_booked_requests
  by (simp add: cancel_appointment_def crud_defs example_defs example_later_def
        db_cancelled_def appointment_10_cancelled_def)

lemma run_two_window_requests: "run two_window_requests = db_two_windows"
  by (simp add: run_def empty_db_def create_doctor_schedule_def create_new_appointment_def
        except_ValueError_def crud_defs example_defs two_window_defs)

lemmas validate_defs = validate_ScheduleCreate_def validate_day_of_week_def validate_times_def
  validate_AppointmentCreate_def validate_future_date_def

lemma validated_booked_requests: "list_all (validated monday) booked_requests"
  by (simp add: booked_requests_def validate_defs example_defs time_of_def minute_us_def)

lemma validated_cancelled_requests: "list_all (validated monday) cancelled_requests"
  using validated_booked_requests by (simp add: cancelled_requests_def)




lemma validated_two_window_requests: "list_all (validated monday) two_window_requests"
  by (simp add: validate_defs example_defs two_window_defs time_of_def minute_us_def)

lemma run_overlap_requests:
  "list_all (validated monday) overlap_requests \<and> run overlap_requests = db_overlap"
  by (simp add: overlap_requests_def db_overlap_def schedule_9_1030_def schedule_930_1030_def
        validate_defs run_def empty_db_def create_doctor_schedule_def except_ValueError_def
        crud_defs example_defs)

lemma run_late_requests:
  "list_all (validated monday) late_requests \<and> run late_requests = db_late"
  by (simp add: late_requests_def db_late_def schedule_late_def
        validate_defs run_def empty_db_def create_doctor_schedule_def except_ValueError_def
        crud_defs example_defs)

lemma run_friday_requests:
  "list_all (validated monday) friday_requests \<and> run friday_requests = db_friday"
  by (simp add: friday_requests_def db_friday_def schedule_friday_def
        validate_defs run_def empty_db_def create_doctor_schedule_def except_ValueError_def
        crud_defs example_defs)

section \<open>No double booking\<close>

lemma create_appointment_table_ok:
  "table_ok db \<Longrightarrow> table_ok (snd (create_appointment db rq pid now))"
  using next_id_fresh[of "map id_apt (appointments db)"]
  by (auto simp: table_ok_def create_appointment_def Let_def)

lemma update_appointment_table_ok:
  assumes "table_ok db"
  shows "table_ok (snd (update_appointment db aid u now))"
proof (cases "get_appointment db aid")
  case None
  then show ?thesis using assms by (simp add: update_appointment_def)
next
  case (Some a)
  let ?row = "(setattr_appointment a u)\<lparr>updated_at := now\<rparr>"
  let ?rows = "map (\<lambda>r. if id_apt r = aid then ?row else r) (appointments db)"
  have a: "id_apt a = aid" "a \<in> set (appointments db)"
    using get_appointment_Some[OF Some] by simp_all
  have rid: "id_apt ?row = aid" using a by (simp add: setattr_appointment_def)
  have key: "unique_doctor_appointment_slot ?row = unique_doctor_appointment_slot (setattr_appointment a u)"
    by (simp add: unique_doctor_appointment_slot_def)
  show ?thesis
  proof (cases "snd (update_appointment db aid u now) = db")
    case True
    then show ?thesis using assms by simp
  next
    case False
    then have res: "snd (update_appointment db aid u now) = db\<lparr>appointments := ?rows\<rparr>"
      and ok: "unique_doctor_appointment_slot ?row = unique_doctor_appointment_slot a \<or>
               unique_doctor_appointment_slot ?row \<notin> set (map unique_doctor_appointment_slot (appointments db))"
      using Some by (auto simp: update_appointment_def Let_def key split: if_splits)
    have ids: "map id_apt ?rows = map id_apt (appointments db)"
      by (rule map_update_ids[OF rid])
    have "distinct (map id_apt ?rows)"
      unfolding ids using assms by (simp add: table_ok_def)
    moreover have "distinct (map unique_doctor_appointment_slot ?rows)"
      using assms a ok by (intro distinct_map_update[where a = a]) (simp_all add: table_ok_def)
    ultimately show ?thesis using res by (simp add: table_ok_def)
  qed
qed

lemma update_schedule_appointments:
  "appointments (snd (update_schedule db sid u today)) = appointments db"
  by (auto simp: update_schedule_def Let_def split: option.splits)

lemma delete_schedule_appointments:
  "appointments (snd (delete_schedule db sid today)) = appointments db"
  by (auto simp: delete_schedule_def Let_def split: option.splits)

lemma create_schedule_appointments:
  "appointments (snd (create_schedule db rq did now)) = appointments db"
  by (auto simp: create_schedule_def Let_def)

lemma update_doctor_schedule_snd:
  "snd (update_doctor_schedule db sid u usr today) = db \<or>
   snd (update_doctor_schedule db sid u usr today) = snd (update_schedule db sid u today)"
  by (auto simp: update_doctor_schedule_def split: option.splits prod.splits sum.splits error.splits)

lemma delete_doctor_schedule_snd:
  "snd (delete_doctor_schedule db sid usr today) = db \<or>
   snd (delete_doctor_schedule db sid usr today) = snd (delete_schedule db sid today)"
  by (auto simp: delete_doctor_schedule_def split: option.splits prod.splits sum.splits error.splits)

lemma cancel_appointment_snd:
  "snd (cancel_appointment db aid usr now) = db \<or>
   snd (cancel_appointment db aid usr now) =
     snd (update_appointment db aid
            \<lparr>au_appointment_date = None, au_appointment_time = None,
             au_reason = None, au_status = Some CANCELLED\<rparr> now)"
  by (cases "update_appointment db aid
            \<lparr>au_appointment_date = None, au_appointment_time = None,
             au_reason = None, au_status = Some CANCELLED\<rparr> now")
     (auto simp: cancel_appointment_def split: option.splits sum.splits)

lemma handle_table_ok: "table_ok db \<Longrightarrow> table_ok (handle db rq)"
proof (cases rq)
  case (BookSlot appointment u now)
  assume "table_ok db"
  then show ?thesis using BookSlot create_appointment_table_ok[of db appointment "id_usr u" now]
    by (simp add: create_new_appointment_def except_ValueError_snd)
next
  case (UpdateAppointment aid upd u now)
  assume "table_ok db"
  then show ?thesis using UpdateAppointment update_appointment_table_ok[of db aid upd now]
    by (auto simp: update_appointment_by_id_def Let_def split: option.splits)
next
  case (CancelAppointment aid u now)
  assume "table_ok db"
  then show ?thesis using CancelAppointment cancel_appointment_snd[of db aid u now]
     update_appointment_table_ok[of db aid _ now]
    by auto
next
  case (DefineWindow schedule u now)
  assume "table_ok db"
  then show ?thesis using DefineWindow create_schedule_appointments[of db schedule "id_usr u" now]
    by (simp add: create_doctor_schedule_def except_ValueError_snd table_ok_def)
next
  case (UpdateWindow sid upd u today)
  assume "table_ok db"
  then show ?thesis using UpdateWindow update_doctor_schedule_snd[of db sid upd u today]
      update_schedule_appointments[of db sid upd today]
    by (auto simp: table_ok_def)
next
  case (RemoveWindow sid u today)
  assume "table_ok db"
  then show ?thesis using RemoveWindow delete_doctor_schedule_snd[of db sid u today]
      delete_schedule_appointments[of db sid today]
    by (auto simp: table_ok_def)
qed

lemma foldl_handle_table_ok: "table_ok db \<Longrightarrow> table_ok (foldl handle db requests)"
  by (induction requests arbitrary: db) (simp_all add: handle_table_ok)

lemma run_table_ok: "table_ok (run requests)"
  unfolding run_def by (rule foldl_handle_table_ok) (simp add: table_ok_def empty_db_def)

lemma check_slot_availability_taken:
  assumes "a \<in> set (appointments db)" "doctor_id a = did" "appointment_date a = d"
    "appointment_time a = t" "status a \<noteq> CANCELLED"
  shows "\<not> check_slot_availability db did d t None"
proof -
  have "[a \<leftarrow> appointments db. doctor_id a = did \<and> appointment_date a = d \<and>
                           appointment_time a = t \<and> status a \<noteq> CANCELLED] \<noteq> []"
    using assms by (auto simp: filter_empty_conv)
  then have "first [a \<leftarrow> appointments db. doctor_id a = did \<and> appointment_date a = d \<and>
                           appointment_time a = t \<and> status a \<noteq> CANCELLED] \<noteq> None"
    by (simp only: first_None not_False_eq_True)
  then show ?thesis
    by (simp add: check_slot_availability_def Let_def split: option.splits)
qed

text \<open>
  C1. After any sequence of requests, two appointments of the table that are not
  CANCELLED and agree on (doctor_id, appointment_date, appointment_time) are the same row;
  and whenever a row that is not CANCELLED holds that triple, a patient's
  create_new_appointment for it is refused with status 400 and the database is left as it
  was. (The endpoint answers every refused booking with status 400: that is the Conflict
  of the specification.)
\<close>

theorem no_double_booking:
  "(\<forall>a \<in> set (appointments (run requests)). \<forall>b \<in> set (appointments (run requests)).
       unique_doctor_appointment_slot a = unique_doctor_appointment_slot b \<and>
       status a \<noteq> CANCELLED \<and> status b \<noteq> CANCELLED \<longrightarrow> a = b) \<and>
   (role u = PATIENT \<and>
    (\<exists>a \<in> set (appointments db).
        unique_doctor_appointment_slot a =
          (ac_doctor_id rq, ac_appointment_date rq, ac_appointment_time rq) \<and>
        status a \<noteq> CANCELLED) \<longrightarrow>
    create_new_appointment db rq u now =
      (Inl (HTTPException 400 ''This time slot is not available''), db))"
proof (intro conjI ballI impI)
  fix a b
  assume "a \<in> set (appointments (run requests))" "b \<in> set (appointments (run requests))"
    "unique_doctor_appointment_slot a = unique_doctor_appointment_slot b \<and>
       status a \<noteq> CANCELLED \<and> status b \<noteq> CANCELLED"
  moreover have "inj_on unique_doctor_appointment_slot (set (appointments (run requests)))"
    using run_table_ok[of requests] by (simp add: table_ok_def distinct_map)
  ultimately show "a = b" by (auto dest: inj_onD)
next
  assume h: "role u = PATIENT \<and>
    (\<exists>a \<in> set (appointments db).
        unique_doctor_appointment_slot a =
          (ac_doctor_id rq, ac_appointment_date rq, ac_appointment_time rq) \<and>
        status a \<noteq> CANCELLED)"
  then obtain a where "a \<in> set (appointments db)" "doctor_id a = ac_doctor_id rq"
     "appointment_date a = ac_appointment_date rq" "appointment_time a = ac_appointment_time rq"
     "status a \<noteq> CANCELLED"
    by (auto simp: unique_doctor_appointment_slot_def)
  from check_slot_availability_taken[OF this] h
  show "create_new_appointment db rq u now =
      (Inl (HTTPException 400 ''This time slot is not available''), db)"
    by (simp add: create_new_appointment_def)
qed

theorem no_double_booking_witness:
  "appointment_10 \<in> set (appointments (run booked_requests)) \<and>
   status appointment_10 \<noteq> CANCELLED \<and> role example_patient = PATIENT \<and>
   create_new_appointment (run booked_requests) booking_10 example_patient example_now =
     (Inl (HTTPException 400 ''This time slot is not available''), run booked_requests)"
proof -
  have mem: "appointment_10 \<in> set (appointments (run booked_requests))"
    by (simp add: run_booked_requests db_booked_def)
  have st: "status appointment_10 \<noteq> CANCELLED" "role example_patient = PATIENT"
    by (simp_all add: appointment_10_def example_patient_def)
  have key: "unique_doctor_appointment_slot appointment_10 =
          (ac_doctor_id booking_10, ac_appointment_date booking_10, ac_appointment_time booking_10)"
    by (simp add: unique_doctor_appointment_slot_def appointment_10_def booking_10_def)
  from no_double_booking[of booked_requests example_patient "run booked_requests" booking_10 example_now]
    mem st key
  have "create_new_appointment (run booked_requests) booking_10 example_patient example_now =
     (Inl (HTTPException 400 ''This time slot is not available''), run booked_requests)"
    by blast
  with mem st show ?thesis by simp
qed

section \<open>Booking again after a cancellation\<close>

text \<open>
  C2. The doctor defines the Tuesday window, the patient books 10:00 and cancels it. The
  row stays in the table with status CANCELLED, check_slot_availability reports the slot
  as free, and yet the patient's new booking of the same (doctor, date, time) is refused:
  the insert breaks the uniqueness constraint, which counts the cancelled row.
\<close>

theorem rebook_after_cancel_refused:
  "list_all (validated monday) cancelled_requests \<and>
   run cancelled_requests = db_cancelled \<and>
   validate_AppointmentCreate monday booking_10 = Inr booking_10 \<and>
   get_appointment db_cancelled 1 = Some appointment_10_cancelled \<and>
   status appointment_10_cancelled = CANCELLED \<and>
   check_slot_availability db_cancelled (ac_doctor_id booking_10)
     (ac_appointment_date booking_10) (ac_appointment_time booking_10) None \<and>
   create_new_appointment db_cancelled booking_10 example_patient example_later =
     (Inl (HTTPException 400 ''This time slot is already booked''), db_cancelled)"
  by (simp add: run_cancelled_requests validated_cancelled_requests)
     (simp add: create_new_appointment_def except_ValueError_def crud_defs example_defs
        validate_defs example_later_def db_cancelled_def appointment_10_cancelled_def)

section \<open>Status changes\<close>

lemma update_appointment_status_only:
  assumes "get_appointment db aid = Some a"
  shows "\<exists>a' db'. update_appointment db aid (status_only s) now = (Inr (Some a'), db') \<and>
           get_appointment db' aid = Some a' \<and> status a' = s \<and>
           a' = a\<lparr>status := s, updated_at := updated_at a'\<rparr>"
proof (cases "status a = s")
  case True
  then have "setattr_appointment a (status_only s) = a"
    by (simp add: setattr_appointment_def status_only_def)
  then have "update_appointment db aid (status_only s) now = (Inr (Some a), db)"
    using assms by (simp add: update_appointment_def)
  with assms True show ?thesis by simp
next
  case False
  let ?row = "a\<lparr>status := s, updated_at := now\<rparr>"
  let ?db' = "db\<lparr>appointments := map (\<lambda>r. if id_apt r = aid then ?row else r) (appointments db)\<rparr>"
  have upd: "setattr_appointment a (status_only s) = a\<lparr>status := s\<rparr>"
    by (simp add: setattr_appointment_def status_only_def)
  have "a\<lparr>status := s\<rparr> \<noteq> a"
  proof
    assume "a\<lparr>status := s\<rparr> = a"
    then have "status (a\<lparr>status := s\<rparr>) = status a"
      by simp
    with False show False
      by simp
  qed
  then have res: "update_appointment db aid (status_only s) now = (Inr (Some ?row), ?db')"
    using assms by (simp add: update_appointment_def upd unique_doctor_appointment_slot_def Let_def)
  have "id_apt ?row = aid" using get_appointment_Some[OF assms] by simp
  from get_appointment_after_write[OF assms this] res show ?thesis by simp
qed

text \<open>
  C3, as the code has it. A patient's request for any status other than CANCELLED is
  refused with status 403 and the database is left as it was, so only a doctor can move
  an appointment to COMPLETED. The status requested by the doctor of the appointment, and
  CANCELLED requested by its patient, is written whatever the current status is: the
  stored row then has the requested status and differs from the old one in status and
  updated_at only. No status is terminal and no request is refused for the transition
  it makes.
\<close>

theorem status_update_policy:
  assumes "get_appointment db aid = Some a"
  shows "(role u = PATIENT \<and> s \<noteq> CANCELLED \<longrightarrow>
            snd (update_appointment_by_id db aid (status_only s) u now) = db \<and>
            fst (update_appointment_by_id db aid (status_only s) u now)
              \<in> {Inl (HTTPException 403 ''You can only update your own appointments''),
                 Inl (HTTPException 403 ''Patients can only cancel appointments'')}) \<and>
         ((role u = DOCTOR \<and> doctor_id a = id_usr u) \<or>
          (role u = PATIENT \<and> patient_id a = id_usr u \<and> s = CANCELLED) \<longrightarrow>
            (\<exists>a' db'. update_appointment_by_id db aid (status_only s) u now = (Inr (Some a'), db') \<and>
               get_appointment db' aid = Some a' \<and> status a' = s \<and>
               a' = a\<lparr>status := s, updated_at := updated_at a'\<rparr>))"
proof (intro conjI impI)
  assume "role u = PATIENT \<and> s \<noteq> CANCELLED"
  then show "snd (update_appointment_by_id db aid (status_only s) u now) = db"
    and "fst (update_appointment_by_id db aid (status_only s) u now)
              \<in> {Inl (HTTPException 403 ''You can only update your own appointments''),
                 Inl (HTTPException 403 ''Patients can only cancel appointments'')}"
    using assms by (simp_all add: update_appointment_by_id_def status_only_def)
next
  assume "(role u = DOCTOR \<and> doctor_id a = id_usr u) \<or>
          (role u = PATIENT \<and> patient_id a = id_usr u \<and> s = CANCELLED)"
  then have "update_appointment_by_id db aid (status_only s) u now =
             update_appointment db aid (status_only s) now"
    using assms by (auto simp: update_appointment_by_id_def status_only_def)
  with update_appointment_status_only[OF assms, of s now]
  show "\<exists>a' db'. update_appointment_by_id db aid (status_only s) u now = (Inr (Some a'), db') \<and>
               get_appointment db' aid = Some a' \<and> status a' = s \<and>
               a' = a\<lparr>status := s, updated_at := updated_at a'\<rparr>"
    by simp
qed

theorem status_update_policy_witness:
  "get_appointment db_cancelled 1 = Some appointment_10_cancelled \<and>
   role example_doctor = DOCTOR \<and> doctor_id appointment_10_cancelled = id_usr example_doctor \<and>
   (\<exists>a' db'. update_appointment_by_id db_cancelled 1 (status_only SCHEDULED) example_doctor
                example_later = (Inr (Some a'), db') \<and>
      get_appointment db' 1 = Some a' \<and> status a' = SCHEDULED) \<and>
   role example_patient = PATIENT \<and> COMPLETED \<noteq> CANCELLED \<and>
   snd (update_appointment_by_id db_cancelled 1 (status_only COMPLETED) example_patient
          example_later) = db_cancelled"
proof -
  have h: "get_appointment db_cancelled 1 = Some appointment_10_cancelled"
    by (rule get_appointment_db_cancelled)
  have d: "role example_doctor = DOCTOR" "doctor_id appointment_10_cancelled = id_usr example_doctor"
    "role example_patient = PATIENT"
    by (simp_all add: example_defs appointment_10_cancelled_def)
  from status_update_policy[OF h, of example_doctor SCHEDULED example_later] d
  have 1: "\<exists>a' db'. update_appointment_by_id db_cancelled 1 (status_only SCHEDULED) example_doctor
                example_later = (Inr (Some a'), db') \<and>
      get_appointment db' 1 = Some a' \<and> status a' = SCHEDULED"
    by (elim conjE) (simp, elim exE conjE, intro exI conjI, assumption+)
  from status_update_policy[OF h, of example_patient COMPLETED example_later] d
  have 2: "snd (update_appointment_by_id db_cancelled 1 (status_only COMPLETED) example_patient
          example_later) = db_cancelled"
    by simp
  from h d 1 2 show ?thesis by simp
qed

text \<open>
  C3 as stated fails: the doctor moves the cancelled appointment back to SCHEDULED.
\<close>

theorem terminal_status_counterexample:
  "get_appointment db_cancelled 1 = Some appointment_10_cancelled \<and>
   status appointment_10_cancelled = CANCELLED \<and>
   update_appointment_by_id db_cancelled 1 (status_only SCHEDULED) example_doctor example_later =
     (Inr (Some (appointment_10_cancelled\<lparr>status := SCHEDULED\<rparr>)),
      db_cancelled\<lparr>appointments := [appointment_10_cancelled\<lparr>status := SCHEDULED\<rparr>]\<rparr>)"
  by (simp add: update_appointment_by_id_def status_only_def crud_defs example_defs
        example_later_def db_cancelled_def appointment_10_cancelled_def)

section \<open>Widening a window\<close>

text \<open>
  The appointments that the scan of a widening edit collects all lie outside the old
  window: none of them is one that the edit could orphan.
\<close>

lemma widening_conflicts_outside_old:
  assumes "new_start \<le> start_time schedule" "end_time schedule \<le> new_end"
    and "apt \<in> set (conflicting_outside db schedule new_start new_end today)"
  shows "\<not> (start_time schedule \<le> appointment_time apt \<and> appointment_time apt < end_time schedule)"
  using assms by (auto simp: conflicting_outside_def)

text \<open>
  C4. The afternoon window, the booking at 14:00 and then the morning window, requested
  in that order, leave the two windows and the appointment at 14:00, which lies in the
  afternoon window and not in the morning one. Moving the start of the morning window
  from 9:00 to 8:00 widens it, and is refused: the scan for a change of start or end time
  collects every future SCHEDULED appointment of that weekday that lies outside the new
  hours, whether or not it lay inside the old ones.
\<close>

theorem widening_refused:
  "list_all (validated monday) two_window_requests \<and>
   run two_window_requests = db_two_windows \<and>
   get_schedule db_two_windows 2 = Some schedule_9_12 \<and>
   time_of 8 0 \<le> start_time schedule_9_12 \<and>
   conflicting_inside db_two_windows schedule_9_12 monday = [] \<and>
   update_doctor_schedule db_two_windows 2 (start_at (time_of 8 0)) example_doctor monday =
     (Inl (HTTPException 400 ''Cannot modify schedule: 1 appointments would be outside new hours''),
      db_two_windows)"
  by (simp add: run_two_window_requests validated_two_window_requests)
     (simp add: update_doctor_schedule_def update_schedule_def get_schedule_def
        conflicting_inside_def conflicting_outside_def future_appointments_def
        crud_defs example_defs two_window_defs str_of_nat.simps digit_char_def)

section \<open>Rescheduling\<close>






section \<open>The loops of get_available_slots\<close>

lemma slot_loop_step:
  "t < end_time w \<Longrightarrow> datetime_add_minutes d t (slot_duration w) = Inr (d', t') \<Longrightarrow>
   (d, t) \<notin> booked \<Longrightarrow>
   slot_loop did d w booked t acc = slot_loop did d w booked t' (acc @ [slot did d t])"
  by (subst slot_loop.simps) (simp add: slot_def)

lemma slot_loop_skip:
  "t < end_time w \<Longrightarrow> datetime_add_minutes d t (slot_duration w) = Inr (d', t') \<Longrightarrow>
   (d, t) \<in> booked \<Longrightarrow>
   slot_loop did d w booked t acc = slot_loop did d w booked t' acc"
  by (subst slot_loop.simps) simp

lemma slot_loop_stop:
  "\<not> t < end_time w \<Longrightarrow> slot_loop did d w booked t acc = Some (Inr acc)"
  by (subst slot_loop.simps) simp

lemma datetime_add_minutes_same_day:
  assumes "0 < d" "d \<le> MAXORDINAL" "\<bar>m div 1440\<bar> \<le> 999999999"
    "0 \<le> t + m * minute_us" "t + m * minute_us < day_us"
  shows "datetime_add_minutes d t m = Inr (d, t + m * minute_us)"
proof -
  have "(t + m * minute_us) div day_us = 0" "(t + m * minute_us) mod day_us = t + m * minute_us"
    using assms by simp_all
  then show ?thesis
    using assms by (simp add: datetime_add_minutes_def Let_def)
qed

lemma datetime_add_minutes_Inr:
  "datetime_add_minutes d t m = Inr nd \<Longrightarrow> snd nd = (t + m * minute_us) mod day_us"
  by (auto simp: datetime_add_minutes_def Let_def split: if_splits)

lemma add_half_hour:
  "0 < d \<Longrightarrow> d \<le> MAXORDINAL \<Longrightarrow> 0 \<le> t \<Longrightarrow> t + 30 * minute_us < day_us \<Longrightarrow>
   datetime_add_minutes d t 30 = Inr (d, t + 30 * minute_us)"
  using datetime_add_minutes_same_day[of d 30 t] by (simp add: minute_us_def)

lemma date_loop_single_day:
  assumes "schedules_loop did d [s \<leftarrow> scheds. day_of_week s = weekday d] booked acc =
             Some (Inr slots)"
  shows "date_loop did scheds booked d d acc =
           (if 0 < d + 1 \<and> d + 1 \<le> MAXORDINAL then Some (Inr slots)
            else Some (Inl OverflowError))"
proof (cases "0 < d + 1 \<and> d + 1 \<le> MAXORDINAL")
  case True
  have "date_loop did scheds booked d d acc = date_loop did scheds booked (d + 1) d slots"
    using True
    by (subst date_loop.simps) (simp add: assms date_add_days_def)
  also have "\<dots> = Some (Inr slots)"
    by (subst date_loop.simps) simp
  finally show ?thesis
    using True by simp
next
  case False
  have "date_loop did scheds booked d d acc = Some (Inl OverflowError)"
    using False
    by (subst date_loop.simps) (auto simp add: assms date_add_days_def)
  then show ?thesis
    using False by simp
qed

lemma get_available_slots_single_day:
  assumes "get_schedules_by_doctor db did = scheds" "scheds \<noteq> []" "0 < d" "d < MAXORDINAL"
    and "schedules_loop did d [s \<leftarrow> scheds. day_of_week s = weekday d]
           (booked_slots_of db did d d) [] = Some (Inr slots)"
  shows "get_available_slots db did d d = Some (Inr slots)"
  using date_loop_single_day[OF assms(5)] assms(1-4)
  by (simp add: get_available_slots_def booked_slots_of_def)

lemma slot_loop_Inr:
  assumes "slot_loop did d w booked t acc = Some y"
  shows "\<forall>r. y = Inr r \<longrightarrow>
           (\<exists>new. r = acc @ new \<and>
              (\<forall>s \<in> set new. date_slot s = d \<and> time_slot s < end_time w) \<and>
              (0 < slot_duration w \<and> 0 \<le> t \<and>
               end_time w + slot_duration w * minute_us \<le> day_us \<longrightarrow>
                 sorted_wrt (<) (map time_slot new) \<and> (\<forall>s \<in> set new. t \<le> time_slot s)))"
  using assms
proof (induction rule: slot_loop.raw_induct[rotated, consumes 1, case_names step])
  case (step loop did d w booked t acc y)
  show ?case
  proof (cases "t < end_time w")
    case False
    with step(2) have "y = Inr acc" by simp
    then show ?thesis by simp
  next
    case True
    show ?thesis
    proof (cases "datetime_add_minutes d t (slot_duration w)")
      case (Inl e)
      with step(2) True have "y = Inl e" by simp
      then show ?thesis by simp
    next
      case (Inr nd)
      let ?t' = "snd nd"
      let ?emit = "if (d, t) \<notin> booked then [\<lparr>date_slot = d, time_slot = t, doctor_id_slot = did\<rparr>] else []"
      have acc': "(if (d, t) \<notin> booked
                   then acc @ [\<lparr>date_slot = d, time_slot = t, doctor_id_slot = did\<rparr>]
                   else acc) = acc @ ?emit"
        by simp
      from step(2) True Inr have "loop did d w booked ?t' (acc @ ?emit) = Some y"
        by (simp only: acc'[symmetric]) simp
      note ih = step(1)[OF this]
      show ?thesis
      proof (intro allI impI)
        fix r assume "y = Inr r"
        with ih obtain new' where
          r: "r = (acc @ ?emit) @ new'" and
          in_day: "\<forall>s \<in> set new'. date_slot s = d \<and> time_slot s < end_time w" and
          ordered: "0 < slot_duration w \<and> 0 \<le> ?t' \<and>
               end_time w + slot_duration w * minute_us \<le> day_us \<longrightarrow>
                 sorted_wrt (<) (map time_slot new') \<and> (\<forall>s \<in> set new'. ?t' \<le> time_slot s)"
          by blast
        have 1: "r = acc @ (?emit @ new')"
          using r by simp
        have 2: "\<forall>s \<in> set (?emit @ new'). date_slot s = d \<and> time_slot s < end_time w"
          using in_day True by auto
        have 3: "sorted_wrt (<) (map time_slot (?emit @ new')) \<and>
                 (\<forall>s \<in> set (?emit @ new'). t \<le> time_slot s)"
          if h: "0 < slot_duration w \<and> 0 \<le> t \<and>
               end_time w + slot_duration w * minute_us \<le> day_us"
        proof -
          have "0 < slot_duration w * minute_us"
            using h by (simp add: minute_us_def)
          moreover have "t + slot_duration w * minute_us < day_us"
            using h True by simp
          ultimately have "?t' = t + slot_duration w * minute_us" "t < ?t'"
            using h datetime_add_minutes_Inr[OF Inr] by simp_all
          with h ordered have "sorted_wrt (<) (map time_slot new')"
            "\<forall>s \<in> set new'. t < time_slot s"
            by auto
          then show ?thesis
            by auto
        qed
        from 1 2 3 show "\<exists>new. r = acc @ new \<and>
              (\<forall>s \<in> set new. date_slot s = d \<and> time_slot s < end_time w) \<and>
              (0 < slot_duration w \<and> 0 \<le> t \<and>
               end_time w + slot_duration w * minute_us \<le> day_us \<longrightarrow>
                 sorted_wrt (<) (map time_slot new) \<and> (\<forall>s \<in> set new. t \<le> time_slot s))"
          by blast
      qed
    qed
  qed
qed

lemma schedules_loop_Inr:
  assumes "schedules_loop did d ws booked acc = Some (Inr r)"
  shows "\<exists>new. r = acc @ new \<and> (\<forall>s \<in> set new. date_slot s = d) \<and>
           ((\<forall>w \<in> set ws. no_wrap w) \<and>
            sorted_wrt (\<lambda>w1 w2. end_time w1 \<le> start_time w2) ws \<longrightarrow>
              sorted_wrt (<) (map time_slot new) \<and>
              (\<forall>s \<in> set new. \<exists>w \<in> set ws. start_time w \<le> time_slot s \<and> time_slot s < end_time w))"
  using assms
proof (induction ws arbitrary: acc)
  case Nil
  then show ?case by simp
next
  case (Cons w ws)
  from Cons.prems obtain r1 where
    first: "slot_loop did d w booked (start_time w) acc = Some (Inr r1)" and
    rest: "schedules_loop did d ws booked r1 = Some (Inr r)"
    by (auto split: option.splits sum.splits)
  from slot_loop_Inr[OF first] obtain new1 where
    r1: "r1 = acc @ new1" and
    day1: "\<forall>s \<in> set new1. date_slot s = d \<and> time_slot s < end_time w" and
    ord1: "0 < slot_duration w \<and> 0 \<le> start_time w \<and>
               end_time w + slot_duration w * minute_us \<le> day_us \<longrightarrow>
                 sorted_wrt (<) (map time_slot new1) \<and> (\<forall>s \<in> set new1. start_time w \<le> time_slot s)"
    by blast
  from Cons.IH[OF rest] obtain new2 where
    r: "r = r1 @ new2" and
    day2: "\<forall>s \<in> set new2. date_slot s = d" and
    ord2: "(\<forall>w \<in> set ws. no_wrap w) \<and>
            sorted_wrt (\<lambda>w1 w2. end_time w1 \<le> start_time w2) ws \<longrightarrow>
              sorted_wrt (<) (map time_slot new2) \<and>
              (\<forall>s \<in> set new2. \<exists>w \<in> set ws. start_time w \<le> time_slot s \<and> time_slot s < end_time w)"
    by blast
  have 1: "r = acc @ (new1 @ new2)"
    using r r1 by simp
  have 2: "\<forall>s \<in> set (new1 @ new2). date_slot s = d"
    using day1 day2 by auto
  have 3: "sorted_wrt (<) (map time_slot (new1 @ new2)) \<and>
           (\<forall>s \<in> set (new1 @ new2). \<exists>w' \<in> set (w # ws).
               start_time w' \<le> time_slot s \<and> time_slot s < end_time w')"
    if h: "(\<forall>w' \<in> set (w # ws). no_wrap w') \<and>
           sorted_wrt (\<lambda>w1 w2. end_time w1 \<le> start_time w2) (w # ws)"
  proof -
    from h ord1 have s1: "sorted_wrt (<) (map time_slot new1)"
      and lo1: "\<forall>s \<in> set new1. start_time w \<le> time_slot s"
      by (simp_all add: no_wrap_def)
    from h ord2 have s2: "sorted_wrt (<) (map time_slot new2)"
      and in2: "\<forall>s \<in> set new2. \<exists>w' \<in> set ws. start_time w' \<le> time_slot s \<and> time_slot s < end_time w'"
      by simp_all
    from h have later: "\<forall>w' \<in> set ws. end_time w \<le> start_time w'"
      by simp
    have cross: "\<forall>a \<in> set new1. \<forall>b \<in> set new2. time_slot a < time_slot b"
    proof (intro ballI)
      fix a b assume a: "a \<in> set new1" and b: "b \<in> set new2"
      from in2 b obtain w' where "w' \<in> set ws" "start_time w' \<le> time_slot b"
        by blast
      with later have "end_time w \<le> time_slot b"
        by force
      with day1 a show "time_slot a < time_slot b"
        by force
    qed
    have "sorted_wrt (<) (map time_slot (new1 @ new2))"
      using s1 s2 cross by (simp add: sorted_wrt_append)
    moreover have "\<forall>s \<in> set (new1 @ new2). \<exists>w' \<in> set (w # ws).
               start_time w' \<le> time_slot s \<and> time_slot s < end_time w'"
      using lo1 day1 in2 by auto
    ultimately show ?thesis by simp
  qed
  from 1 2 3 show ?case by blast
qed

lemma same_day_keys:
  assumes "\<forall>s \<in> set new. date_slot s = d" "sorted_wrt (<) (map time_slot new)"
  shows "sorted_wrt (<) (map slot_key new)"
  using assms by (induction new) (auto simp: slot_key_def)

lemma date_loop_Inr:
  "date_loop did scheds booked cur end_date acc = Some (Inr r) \<Longrightarrow>
     \<exists>new. r = acc @ new \<and> (\<forall>s \<in> set new. cur \<le> date_slot s) \<and>
       sorted (map date_slot new) \<and>
       ((\<forall>w \<in> set scheds. no_wrap w) \<and>
        sorted_wrt (\<lambda>w1 w2. day_of_week w1 = day_of_week w2 \<longrightarrow> end_time w1 \<le> start_time w2) scheds
          \<longrightarrow> sorted_wrt (<) (map slot_key new))"
proof (induction did scheds booked cur end_date acc arbitrary: r rule: date_loop.induct)
  case (1 did scheds booked cur end_date acc)
  let ?today = "[s \<leftarrow> scheds. day_of_week s = weekday cur]"
  show ?case
  proof (cases "cur \<le> end_date")
    case False
    with "1.prems" have "r = acc"
      by (subst (asm) date_loop.simps) simp
    then show ?thesis by simp
  next
    case True
    from "1.prems" True obtain r1 where
      day: "schedules_loop did cur ?today booked acc = Some (Inr r1)" and
      nxt: "date_add_days cur 1 = Inr (cur + 1)" and
      rest: "date_loop did scheds booked (cur + 1) end_date r1 = Some (Inr r)"
      by (subst (asm) date_loop.simps)
         (auto simp: date_add_days_def split: option.splits sum.splits if_splits)
    from schedules_loop_Inr[OF day] obtain new1 where
      r1: "r1 = acc @ new1" and
      d1: "\<forall>s \<in> set new1. date_slot s = cur" and
      o1: "(\<forall>w \<in> set ?today. no_wrap w) \<and>
            sorted_wrt (\<lambda>w1 w2. end_time w1 \<le> start_time w2) ?today \<longrightarrow>
              sorted_wrt (<) (map time_slot new1)"
      by blast
    from "1.IH"[OF True day refl nxt rest] obtain new2 where
      r: "r = r1 @ new2" and
      d2: "\<forall>s \<in> set new2. cur + 1 \<le> date_slot s" and
      s2: "sorted (map date_slot new2)" and
      o2: "(\<forall>w \<in> set scheds. no_wrap w) \<and>
        sorted_wrt (\<lambda>w1 w2. day_of_week w1 = day_of_week w2 \<longrightarrow> end_time w1 \<le> start_time w2) scheds
          \<longrightarrow> sorted_wrt (<) (map slot_key new2)"
      by blast
    have a: "r = acc @ (new1 @ new2)"
      using r r1 by simp
    have b: "\<forall>s \<in> set (new1 @ new2). cur \<le> date_slot s"
      using d1 d2 by auto
    have "sorted (map date_slot new1)"
      using d1 by (induction new1) auto
    then have c: "sorted (map date_slot (new1 @ new2))"
      using s2 d1 d2 by (auto simp: sorted_append)
    have d: "sorted_wrt (<) (map slot_key (new1 @ new2))"
      if h: "(\<forall>w \<in> set scheds. no_wrap w) \<and>
        sorted_wrt (\<lambda>w1 w2. day_of_week w1 = day_of_week w2 \<longrightarrow> end_time w1 \<le> start_time w2) scheds"
    proof -
      from h have "sorted_wrt (\<lambda>w1 w2. day_of_week w1 = day_of_week w2 \<longrightarrow> end_time w1 \<le> start_time w2) ?today"
        by (simp add: sorted_wrt_filter)
      then have "sorted_wrt (\<lambda>w1 w2. end_time w1 \<le> start_time w2) ?today"
        by (rule sorted_wrt_mono_rel[rotated]) auto
      with h o1 have "sorted_wrt (<) (map time_slot new1)"
        by simp
      with d1 have k1: "sorted_wrt (<) (map slot_key new1)"
        by (rule same_day_keys)
      from h o2 have k2: "sorted_wrt (<) (map slot_key new2)"
        by simp
      have "\<forall>x \<in> set new1. \<forall>y \<in> set new2. slot_key x < slot_key y"
        using d1 d2 by (fastforce simp: slot_key_def)
      with k1 k2 show ?thesis
        by (simp add: sorted_wrt_append)
    qed
    from a b c d show ?thesis by blast
  qed
qed

text \<open>
  When the slots of every window stay within the day, all three loops end:
  get_available_slots returns, with its list of slots or with the OverflowError of the
  step past the last date.
\<close>

lemma slot_loop_returns:
  assumes "0 < slot_duration w" "end_time w + slot_duration w * minute_us \<le> day_us" "0 \<le> t"
  shows "\<exists>res. slot_loop did d w booked t acc = Some res"
  using assms(3)
proof (induction "nat (end_time w - t)" arbitrary: t acc rule: less_induct)
  case less
  show ?case
  proof (cases "t < end_time w")
    case False
    then show ?thesis
      by (subst slot_loop.simps) simp
  next
    case True
    show ?thesis
    proof (cases "datetime_add_minutes d t (slot_duration w)")
      case (Inl e)
      with True show ?thesis
        by (subst slot_loop.simps) simp
    next
      case (Inr nd)
      have pos: "0 < slot_duration w * minute_us"
        using assms(1) by (simp add: minute_us_def)
      moreover have "t + slot_duration w * minute_us < day_us"
        using assms(2) True by simp
      ultimately have t': "snd nd = t + slot_duration w * minute_us"
        using less.prems datetime_add_minutes_Inr[OF Inr] by simp
      with pos True less.prems have "nat (end_time w - snd nd) < nat (end_time w - t)" "0 \<le> snd nd"
        by simp_all
      from less.hyps[OF this] obtain res where
        "slot_loop did d w booked (snd nd)
           (if (d, t) \<notin> booked
            then acc @ [\<lparr>date_slot = d, time_slot = t, doctor_id_slot = did\<rparr>]
            else acc) = Some res"
        by blast
      with True Inr show ?thesis
        by (subst slot_loop.simps) simp
    qed
  qed
qed

lemma schedules_loop_returns:
  assumes "\<forall>w \<in> set ws. no_wrap w"
  shows "\<exists>res. schedules_loop did d ws booked acc = Some res"
  using assms
proof (induction ws arbitrary: acc)
  case Nil
  then show ?case by simp
next
  case (Cons w ws)
  then have "no_wrap w" by simp
  then obtain r where r: "slot_loop did d w booked (start_time w) acc = Some r"
    using slot_loop_returns[of w "start_time w" did d booked acc] by (auto simp: no_wrap_def)
  show ?case
  proof (cases r)
    case (Inl e)
    with r show ?thesis by simp
  next
    case (Inr slots)
    with r Cons.IH[of slots] Cons.prems show ?thesis by simp
  qed
qed

lemma date_loop_returns:
  "\<forall>w \<in> set scheds. no_wrap w \<Longrightarrow>
   \<exists>res. date_loop did scheds booked cur end_date acc = Some res"
proof (induction did scheds booked cur end_date acc rule: date_loop.induct)
  case (1 did scheds booked cur end_date acc)
  show ?case
  proof (cases "cur \<le> end_date")
    case False
    then show ?thesis
      by (subst date_loop.simps) simp
  next
    case True
    from "1.prems" have "\<forall>w \<in> set [s \<leftarrow> scheds. day_of_week s = weekday cur]. no_wrap w"
      by simp
    from schedules_loop_returns[OF this] obtain r where
      r: "schedules_loop did cur [s \<leftarrow> scheds. day_of_week s = weekday cur] booked acc = Some r"
      by blast
    show ?thesis
    proof (cases r)
      case (Inl e)
      with r True show ?thesis
        by (subst date_loop.simps) simp
    next
      case (Inr slots)
      show ?thesis
      proof (cases "date_add_days cur 1")
        case (Inl e)
        with r True Inr show ?thesis
          by (subst date_loop.simps) simp
      next
        case next_date: (Inr nd)
        from "1.IH"[OF True r Inr next_date "1.prems"] r True Inr next_date show ?thesis
          by (subst date_loop.simps) simp
      qed
    qed
  qed
qed

lemma get_available_slots_returns:
  assumes "\<forall>w \<in> set (get_schedules_by_doctor db did). no_wrap w"
  shows "\<exists>res. get_available_slots db did start_date end_date = Some res"
  using date_loop_returns[OF assms] by (simp add: get_available_slots_def Let_def)

section \<open>Order and duplicates of the generated slots\<close>

text \<open>
  C6, as the code has it. When get_available_slots returns, the dates of its slots never
  decrease. Slots are not compared with one another: the output is free of duplicate
  (date, time) pairs, and ordered by date and then time, when the slots of every active
  window stay within the day and the doctor's active windows of one weekday do not
  overlap (in their order, each ends no later than the next begins).
\<close>

theorem available_slots_order:
  assumes "get_available_slots db did start_date end_date = Some (Inr slots)"
  shows "sorted (map date_slot slots) \<and>
         ((\<forall>w \<in> set (get_schedules_by_doctor db did). no_wrap w) \<and>
          sorted_wrt (\<lambda>w1 w2. day_of_week w1 = day_of_week w2 \<longrightarrow> end_time w1 \<le> start_time w2)
            (get_schedules_by_doctor db did) \<longrightarrow>
            sorted_wrt (<) (map slot_key slots) \<and> distinct (map slot_key slots))"
proof (cases "get_schedules_by_doctor db did = []")
  case True
  with assms have "slots = []"
    by (simp add: get_available_slots_def)
  then show ?thesis by simp
next
  case False
  with assms have "date_loop did (get_schedules_by_doctor db did)
                     (booked_slots_of db did start_date end_date) start_date end_date [] =
                   Some (Inr slots)"
    by (simp add: get_available_slots_def booked_slots_of_def Let_def)
  from date_loop_Inr[OF this] show ?thesis
    by (auto simp: strict_sorted_iff)
qed

lemma get_schedules_db_two_windows:
  "get_schedules_by_doctor db_two_windows 1 = [schedule_9_12, schedule_13_17]"
  by (simp add: get_schedules_by_doctor_def two_window_defs schedule_9_17_def
        time_of_def minute_us_def)

lemma get_available_slots_db_two_windows:
  "get_available_slots db_two_windows 1 tuesday tuesday = Some (Inr slots_two_windows)"
proof -
  have "schedules_loop 1 tuesday
          [s \<leftarrow> [schedule_9_12, schedule_13_17]. day_of_week s = weekday tuesday]
          (booked_slots_of db_two_windows 1 tuesday tuesday) [] = Some (Inr slots_two_windows)"
    by (simp add: booked_slots_of_def two_window_defs example_defs slots_two_windows_def
          weekday_def slot_loop_step slot_loop_skip slot_loop_stop add_half_hour
          MAXORDINAL_def time_of_def minute_us_def day_us_def)
  from get_available_slots_single_day[OF get_schedules_db_two_windows _ _ _ this]
  show ?thesis
    by (simp add: tuesday_def MAXORDINAL_def)
qed

theorem available_slots_order_witness:
  "get_available_slots db_two_windows 1 tuesday tuesday = Some (Inr slots_two_windows) \<and>
   get_schedules_by_doctor db_two_windows 1 = [schedule_9_12, schedule_13_17] \<and>
   no_wrap schedule_9_12 \<and> no_wrap schedule_13_17 \<and>
   end_time schedule_9_12 \<le> start_time schedule_13_17 \<and>
   sorted (map date_slot slots_two_windows) \<and>
   sorted_wrt (<) (map slot_key slots_two_windows) \<and> distinct (map slot_key slots_two_windows)"
proof -
  have w: "no_wrap schedule_9_12" "no_wrap schedule_13_17"
    "end_time schedule_9_12 \<le> start_time schedule_13_17"
    by (simp_all add: no_wrap_def two_window_defs schedule_9_17_def time_of_def minute_us_def
          day_us_def)
  from available_slots_order[OF get_available_slots_db_two_windows] w
  have "sorted (map date_slot slots_two_windows) \<and>
   sorted_wrt (<) (map slot_key slots_two_windows) \<and> distinct (map slot_key slots_two_windows)"
    by (simp add: get_schedules_db_two_windows)
  with w get_available_slots_db_two_windows get_schedules_db_two_windows show ?thesis
    by simp
qed

lemma get_schedules_db_overlap:
  "get_schedules_by_doctor db_overlap 1 = [schedule_9_1030, schedule_930_1030]"
  by (simp add: get_schedules_by_doctor_def db_overlap_def schedule_9_1030_def
        schedule_930_1030_def schedule_9_17_def time_of_def minute_us_def)

text \<open>
  C6 as stated fails: with the windows 9:00 to 10:30 and 9:30 to 10:30 on the same day,
  the slots at 9:30 and 10:00 come twice, the second 9:30 after the first 10:00.
\<close>

theorem overlapping_windows_counterexample:
  "list_all (validated monday) overlap_requests \<and> run overlap_requests = db_overlap \<and>
   get_schedules_by_doctor db_overlap 1 = [schedule_9_1030, schedule_930_1030] \<and>
   get_available_slots db_overlap 1 tuesday tuesday =
     Some (Inr (map (slot 1 tuesday)
                  [time_of 9 0, time_of 9 30, time_of 10 0, time_of 9 30, time_of 10 0])) \<and>
   \<not> distinct (map slot_key (map (slot 1 tuesday)
                  [time_of 9 0, time_of 9 30, time_of 10 0, time_of 9 30, time_of 10 0])) \<and>
   \<not> sorted (map slot_key (map (slot 1 tuesday)
                  [time_of 9 0, time_of 9 30, time_of 10 0, time_of 9 30, time_of 10 0]))"
proof -
  have "schedules_loop 1 tuesday
          [s \<leftarrow> [schedule_9_1030, schedule_930_1030]. day_of_week s = weekday tuesday]
          (booked_slots_of db_overlap 1 tuesday tuesday) [] =
        Some (Inr (map (slot 1 tuesday)
                  [time_of 9 0, time_of 9 30, time_of 10 0, time_of 9 30, time_of 10 0]))"
    by (simp add: booked_slots_of_def db_overlap_def schedule_9_1030_def schedule_930_1030_def
          schedule_9_17_def weekday_def tuesday_def slot_loop_step slot_loop_stop add_half_hour
          MAXORDINAL_def time_of_def minute_us_def day_us_def)
  from get_available_slots_single_day[OF get_schedules_db_overlap _ _ _ this]
  have "get_available_slots db_overlap 1 tuesday tuesday =
     Some (Inr (map (slot 1 tuesday)
                  [time_of 9 0, time_of 9 30, time_of 10 0, time_of 9 30, time_of 10 0]))"
    by (simp add: tuesday_def MAXORDINAL_def)
  then show ?thesis
    by (simp add: run_overlap_requests get_schedules_db_overlap slot_key_def slot_def
          time_of_def minute_us_def)
qed

section \<open>A window that reaches midnight\<close>

lemma on_the_hour_before_end: "on_the_hour t \<Longrightarrow> t < time_of 23 30"
  by (auto simp: on_the_hour_def minute_us_def time_of_def)

lemma on_the_hour_next:
  assumes "on_the_hour t"
  shows "\<exists>t'. datetime_add_minutes tuesday t 60 = Inr (tuesday + (t + 60 * minute_us) div day_us, t') \<and>
           on_the_hour t'"
proof -
  from assms obtain k where k: "0 \<le> k" "k < 24" "t = k * (60 * minute_us)"
    by (auto simp: on_the_hour_def)
  show ?thesis
  proof (cases "k = 23")
    case True
    with k have "t + 60 * minute_us = day_us"
      by (simp add: minute_us_def day_us_def)
    then have "datetime_add_minutes tuesday t 60 = Inr (tuesday + (t + 60 * minute_us) div day_us, 0)"
      by (simp add: datetime_add_minutes_def Let_def tuesday_def MAXORDINAL_def day_us_def)
    moreover have "on_the_hour 0"
      unfolding on_the_hour_def by (intro image_eqI[where x = 0]) simp_all
    ultimately show ?thesis by blast
  next
    case False
    with k have k1: "0 \<le> k + 1" "k + 1 < 24" by simp_all
    have eq: "t + 60 * minute_us = (k + 1) * (60 * minute_us)"
      using k by (simp add: algebra_simps)
    from k1 have "0 \<le> (k + 1) * (60 * minute_us)" "(k + 1) * (60 * minute_us) < day_us"
      by (simp_all add: minute_us_def day_us_def)
    then have "(t + 60 * minute_us) div day_us = 0" "(t + 60 * minute_us) mod day_us = (k + 1) * (60 * minute_us)"
      unfolding eq by simp_all
    then have "datetime_add_minutes tuesday t 60 =
                 Inr (tuesday + (t + 60 * minute_us) div day_us, (k + 1) * (60 * minute_us))"
      by (simp add: datetime_add_minutes_def Let_def tuesday_def MAXORDINAL_def)
    moreover have "on_the_hour ((k + 1) * (60 * minute_us))"
      unfolding on_the_hour_def using k1 by (intro imageI) simp
    ultimately show ?thesis by blast
  qed
qed

lemma slot_loop_late_Some:
  assumes "slot_loop did d w booked t acc = Some y"
  shows "\<not> (d = tuesday \<and> w = schedule_late \<and> on_the_hour t)"
  using assms
proof (induction rule: slot_loop.raw_induct[rotated, consumes 1, case_names step])
  case (step loop did d w booked t acc y)
  show ?case
  proof
    assume inv: "d = tuesday \<and> w = schedule_late \<and> on_the_hour t"
    then have lt: "t < end_time w"
      using on_the_hour_before_end[of t] by (simp add: schedule_late_def)
    from inv have dur: "slot_duration w = 60"
      by (simp add: schedule_late_def)
    from inv have hour: "on_the_hour t" by simp
    from on_the_hour_next[OF hour] obtain t' where
      next_t: "datetime_add_minutes tuesday t 60 =
                 Inr (tuesday + (t + 60 * minute_us) div day_us, t')" and hour': "on_the_hour t'"
      by blast
    from step(2) lt dur inv next_t
    obtain acc' where "loop did d w booked t' acc' = Some y"
      by simp
    from step(1)[OF this] inv hour' show False
      by simp
  qed
qed

lemma slot_loop_late_None:
  "on_the_hour t \<Longrightarrow> slot_loop did tuesday schedule_late booked t acc = None"
  using slot_loop_late_Some[of did tuesday schedule_late booked t acc] by (cases "slot_loop did tuesday schedule_late booked t acc") auto

text \<open>
  C7. The Tuesday window from 22:00 to 23:30 with slots of 60 minutes has
  start_time < end_time and a positive slot duration, and the range is a single day.
  After the slot at 23:00 the next time is 00:00, the time of day of the following
  midnight, which is again before 23:30: the loop runs through the hours of the day for
  ever, appending a slot each time, and get_available_slots does not return.
\<close>

theorem late_window_never_returns:
  "list_all (validated monday) late_requests \<and> run late_requests = db_late \<and>
   start_time schedule_late < end_time schedule_late \<and> 0 < slot_duration schedule_late \<and>
   end_time schedule_late < day_us \<and> tuesday \<le> tuesday \<and>
   get_schedules_by_doctor db_late 1 = [schedule_late] \<and>
   get_available_slots db_late 1 tuesday tuesday = None \<and>
   get_doctor_available_slots db_late 1 tuesday tuesday = None"
proof -
  have "time_of 22 0 = 22 * (60 * minute_us)"
    by (simp add: time_of_def)
  then have "on_the_hour (time_of 22 0)"
    unfolding on_the_hour_def by (intro image_eqI[where x = 22]) simp_all
  then have "slot_loop 1 tuesday schedule_late {} (start_time schedule_late) [] = None"
    using slot_loop_late_None by (simp add: schedule_late_def)
  moreover have s: "get_schedules_by_doctor db_late 1 = [schedule_late]"
    by (simp add: get_schedules_by_doctor_def db_late_def schedule_late_def schedule_9_17_def)
  moreover have "weekday tuesday = day_of_week schedule_late"
    by (simp add: weekday_def tuesday_def schedule_late_def schedule_9_17_def)
  ultimately have "get_available_slots db_late 1 tuesday tuesday = None"
    by (simp add: get_available_slots_def db_late_def date_loop.simps[of _ _ _ tuesday tuesday])
  with s show ?thesis
    by (simp add: run_late_requests get_doctor_available_slots_def schedule_late_def
          time_of_def minute_us_def day_us_def)
qed

section \<open>The slots of one day\<close>

lemma slot_loop_9_17:
  assumes "0 < d" "d \<le> MAXORDINAL" "end_time w = time_of 17 0" "slot_duration w = 30"
    "\<forall>t. (d, t) \<notin> booked"
  shows "slot_loop did d w booked (time_of 9 0) acc =
           Some (Inr (acc @ map (slot did d) half_hours_9_17))"
  using assms
  by (simp add: slot_loop_step slot_loop_stop add_half_hour half_hours_9_17_def
        time_of_def minute_us_def day_us_def)

text \<open>
  A doctor whose one active window is 9:00 to 17:00 with slots of 30 minutes and who has
  no appointment that is not cancelled: on a day of the window, every date but the last
  one gives the sixteen slots.
\<close>

lemma single_window_day:
  assumes "get_schedules_by_doctor db did = [w]"
    and "day_of_week w = weekday d" "start_time w = time_of 9 0" "end_time w = time_of 17 0"
      "slot_duration w = 30"
    and "\<forall>a \<in> set (appointments db). doctor_id a = did \<longrightarrow> status a = CANCELLED"
    and "0 < d" "d \<le> MAXORDINAL"
  shows "get_available_slots db did d d =
           (if d < MAXORDINAL then Some (Inr (map (slot did d) half_hours_9_17))
            else Some (Inl OverflowError))"
proof -
  let ?booked = "set (map (\<lambda>apt. (appointment_date apt, appointment_time apt))
                   [apt \<leftarrow> appointments db. doctor_id apt = did \<and> appointment_date apt \<ge> d \<and>
                      appointment_date apt \<le> d \<and> status apt \<noteq> CANCELLED])"
  have none: "\<forall>t. (d, t) \<notin> ?booked"
    using assms(6) by auto
  have "schedules_loop did d [s \<leftarrow> [w]. day_of_week s = weekday d] ?booked [] =
       Some (Inr (map (slot did d) half_hours_9_17))"
    using slot_loop_9_17[OF assms(7,8,4,5) none, of did "[]"] assms(2,3)
    by simp
  from date_loop_single_day[OF this] assms(7,8)
  have "date_loop did [w] ?booked d d [] =
          (if d < MAXORDINAL then Some (Inr (map (slot did d) half_hours_9_17))
            else Some (Inl OverflowError))"
    by simp
  then show ?thesis
    unfolding get_available_slots_def assms(1) Let_def by simp
qed

text \<open>
  C8. For the doctor whose one window is Friday 9:00 to 17:00 with slots of 30 minutes
  and who has no appointment, the single-day range on Friday 2024-01-05 gives the sixteen
  slots from 9:00 to 16:30; on Friday 9999-12-31, the last date there is, the sixteen
  slots are generated and then \<open>current_date += timedelta(days=1)\<close> raises OverflowError.
\<close>

theorem single_window_last_day:
  "list_all (validated monday) friday_requests \<and> run friday_requests = db_friday \<and>
   get_schedules_by_doctor db_friday 1 = [schedule_friday] \<and>
   start_time schedule_friday = time_of 9 0 \<and> end_time schedule_friday = time_of 17 0 \<and>
   slot_duration schedule_friday = 30 \<and> appointments db_friday = [] \<and>
   day_of_week schedule_friday = weekday friday \<and>
   get_available_slots db_friday 1 friday friday =
     Some (Inr (map (slot 1 friday) half_hours_9_17)) \<and>
   length half_hours_9_17 = 16 \<and>
   day_of_week schedule_friday = weekday MAXORDINAL \<and>
   get_available_slots db_friday 1 MAXORDINAL MAXORDINAL = Some (Inl OverflowError) \<and>
   get_doctor_available_slots db_friday 1 MAXORDINAL MAXORDINAL = Some (Inl OverflowError)"
proof -
  have s: "get_schedules_by_doctor db_friday 1 = [schedule_friday]"
    by (simp add: get_schedules_by_doctor_def db_friday_def schedule_friday_def schedule_9_17_def)
  have w: "start_time schedule_friday = time_of 9 0" "end_time schedule_friday = time_of 17 0"
    "slot_duration schedule_friday = 30"
    "day_of_week schedule_friday = weekday friday"
    "day_of_week schedule_friday = weekday MAXORDINAL"
    by (simp_all add: schedule_friday_def schedule_9_17_def weekday_def MAXORDINAL_def friday_def)
  have a: "\<forall>a \<in> set (appointments db_friday). doctor_id a = 1 \<longrightarrow> status a = CANCELLED"
    "appointments db_friday = []"
    by (simp_all add: db_friday_def)
  have "get_available_slots db_friday 1 friday friday =
          Some (Inr (map (slot 1 friday) half_hours_9_17))"
    using single_window_day[OF s w(4) w(1,2,3) a(1)] by (simp add: MAXORDINAL_def friday_def)
  moreover have "get_available_slots db_friday 1 MAXORDINAL MAXORDINAL = Some (Inl OverflowError)"
    using single_window_day[OF s w(5) w(1,2,3) a(1)] by (simp add: MAXORDINAL_def)
  ultimately show ?thesis
    using s w a(2)
    by (simp add: run_friday_requests get_doctor_available_slots_def half_hours_9_17_def)
qed

section \<open>Bounds of a window\<close>

lemma validate_ScheduleCreate_Inr:
  "validate_ScheduleCreate sc = Inr sc' \<longleftrightarrow>
     sc' = sc \<and> 0 \<le> sc_day_of_week sc \<and> sc_day_of_week sc \<le> 6 \<and> sc_start_time sc < sc_end_time sc"
  by (auto simp: validate_ScheduleCreate_def validate_day_of_week_def validate_times_def)

text \<open>
  C9, as the code has it. The validator of ScheduleCreate refuses a request whose end
  time is not after its start time, so every window that create_doctor_schedule stores
  for a validated request has start_time < end_time. A request passes the validator
  exactly when its day of the week is within 0 to 6 and its start is before its end: the
  slot duration is not looked at.
\<close>

theorem validated_window_bounds:
  "(sc_end_time sc \<le> sc_start_time sc \<longrightarrow>
      (\<exists>e. validate_ScheduleCreate sc = Inl (ValidationError e))) \<and>
   (validate_ScheduleCreate sc = Inr sc' \<longrightarrow>
      sc' = sc \<and> sc_start_time sc < sc_end_time sc) \<and>
   (validate_ScheduleCreate sc = Inr sc \<longleftrightarrow>
      0 \<le> sc_day_of_week sc \<and> sc_day_of_week sc \<le> 6 \<and> sc_start_time sc < sc_end_time sc) \<and>
   (validate_ScheduleCreate sc = Inr sc \<and> create_doctor_schedule db sc u now = (Inr w, db') \<longrightarrow>
      start_time w < end_time w \<and> schedules db' = schedules db @ [w])"
proof (intro conjI impI)
  assume "sc_end_time sc \<le> sc_start_time sc"
  then show "\<exists>e. validate_ScheduleCreate sc = Inl (ValidationError e)"
    by (simp add: validate_ScheduleCreate_def validate_day_of_week_def validate_times_def)
next
  assume "validate_ScheduleCreate sc = Inr sc'"
  then show "sc' = sc" "sc_start_time sc < sc_end_time sc"
    by (simp_all add: validate_ScheduleCreate_Inr)
next
  show "validate_ScheduleCreate sc = Inr sc \<longleftrightarrow>
      0 \<le> sc_day_of_week sc \<and> sc_day_of_week sc \<le> 6 \<and> sc_start_time sc < sc_end_time sc"
    by (simp add: validate_ScheduleCreate_Inr)
next
  assume h: "validate_ScheduleCreate sc = Inr sc \<and> create_doctor_schedule db sc u now = (Inr w, db')"
  then have lt: "sc_start_time sc < sc_end_time sc"
    by (simp add: validate_ScheduleCreate_Inr)
  from h have "start_time w = sc_start_time sc \<and> end_time w = sc_end_time sc \<and>
               schedules db' = schedules db @ [w]"
    by (auto simp: create_doctor_schedule_def create_schedule_def except_ValueError_def Let_def
          split: if_splits)
  with lt show "start_time w < end_time w" "schedules db' = schedules db @ [w]"
    by simp_all
qed

theorem validated_window_bounds_witness:
  "validate_ScheduleCreate window_9_17 = Inr window_9_17 \<and>
   create_doctor_schedule empty_db window_9_17 example_doctor example_now =
     (Inr schedule_9_17, db_window) \<and>
   start_time schedule_9_17 < end_time schedule_9_17 \<and>
   sc_end_time (window_9_17\<lparr>sc_end_time := time_of 9 0\<rparr>)
     \<le> sc_start_time (window_9_17\<lparr>sc_end_time := time_of 9 0\<rparr>) \<and>
   (\<exists>e. validate_ScheduleCreate (window_9_17\<lparr>sc_end_time := time_of 9 0\<rparr>) =
           Inl (ValidationError e))"
proof -
  have v: "validate_ScheduleCreate window_9_17 = Inr window_9_17"
    by (simp add: validate_ScheduleCreate_def validate_day_of_week_def validate_times_def
          window_9_17_def time_of_def minute_us_def)
  have c: "create_doctor_schedule empty_db window_9_17 example_doctor example_now =
             (Inr schedule_9_17, db_window)"
    by (simp add: create_doctor_schedule_def except_ValueError_def empty_db_def db_window_def
          crud_defs example_defs)
  have e: "sc_end_time (window_9_17\<lparr>sc_end_time := time_of 9 0\<rparr>)
     \<le> sc_start_time (window_9_17\<lparr>sc_end_time := time_of 9 0\<rparr>)"
    by (simp add: window_9_17_def)
  from validated_window_bounds[of window_9_17 window_9_17 empty_db example_doctor example_now
         schedule_9_17 db_window] v c
  have 1: "start_time schedule_9_17 < end_time schedule_9_17"
    by simp
  from validated_window_bounds[of "window_9_17\<lparr>sc_end_time := time_of 9 0\<rparr>"] e
  have 2: "\<exists>e. validate_ScheduleCreate (window_9_17\<lparr>sc_end_time := time_of 9 0\<rparr>) =
           Inl (ValidationError e)"
    by blast
  from v c e 1 2 show ?thesis by simp
qed

text \<open>
  C9 as stated fails: a window with slot duration 0 passes the validator and is stored,
  and an edit that moves the end of the 9:00 window to 8:00 is accepted.
\<close>

theorem window_bounds_counterexample:
  "\<not> 0 < sc_slot_duration window_zero \<and>
   validate_ScheduleCreate window_zero = Inr window_zero \<and>
   create_doctor_schedule empty_db window_zero example_doctor example_now =
     (Inr (schedule_9_17\<lparr>slot_duration := 0\<rparr>),
      \<lparr>schedules = [schedule_9_17\<lparr>slot_duration := 0\<rparr>], appointments = []\<rparr>) \<and>
   update_doctor_schedule db_window 1 (end_at (time_of 8 0)) example_doctor monday =
     (Inr (schedule_9_17\<lparr>end_time := time_of 8 0\<rparr>),
      \<lparr>schedules = [schedule_9_17\<lparr>end_time := time_of 8 0\<rparr>], appointments = []\<rparr>) \<and>
   \<not> start_time (schedule_9_17\<lparr>end_time := time_of 8 0\<rparr>)
       < end_time (schedule_9_17\<lparr>end_time := time_of 8 0\<rparr>)"
  by (simp add: window_zero_def db_window_def end_at_def validate_ScheduleCreate_def
        validate_day_of_week_def validate_times_def create_doctor_schedule_def
        update_doctor_schedule_def update_schedule_def get_schedule_def setattr_schedule_def
        conflicting_outside_def conflicting_inside_def future_appointments_def
        except_ValueError_def empty_db_def crud_defs example_defs)

section \<open>The frame of update_appointment\<close>

text \<open>
  C10. For an existing appointment, update_appointment either raises the ValueError of
  the uniqueness constraint and leaves the database as it was, or returns the stored row,
  in which id, doctor_id, patient_id, created_at and duration, and each of
  appointment_date, appointment_time, reason and status that the update does not carry,
  have the values they had before; no other appointment and no schedule is touched.
\<close>

theorem update_appointment_frame:
  assumes "get_appointment db aid = Some a"
  shows "update_appointment db aid u now =
           (Inl (ValueError ''This time slot is already booked''), db) \<or>
     (\<exists>a' db'. update_appointment db aid u now = (Inr (Some a'), db') \<and>
        get_appointment db' aid = Some a' \<and>
        schedules db' = schedules db \<and>
        [r \<leftarrow> appointments db'. id_apt r \<noteq> aid] = [r \<leftarrow> appointments db. id_apt r \<noteq> aid] \<and>
        id_apt a' = id_apt a \<and> doctor_id a' = doctor_id a \<and> patient_id a' = patient_id a \<and>
        created_at a' = created_at a \<and> duration a' = duration a \<and>
        (au_appointment_date u = None \<longrightarrow> appointment_date a' = appointment_date a) \<and>
        (au_appointment_time u = None \<longrightarrow> appointment_time a' = appointment_time a) \<and>
        (au_reason u = None \<longrightarrow> reason a' = reason a) \<and>
        (au_status u = None \<longrightarrow> status a' = status a))"
proof -
  let ?updated = "setattr_appointment a u"
  have aid: "id_apt a = aid"
    using get_appointment_Some[OF assms] by simp
  show ?thesis
  proof (cases "?updated = a")
    case True
    then show ?thesis
      using assms by (simp add: update_appointment_def)
  next
    case changed: False
    show ?thesis
    proof (cases "unique_doctor_appointment_slot ?updated \<noteq> unique_doctor_appointment_slot a \<and>
                  unique_doctor_appointment_slot ?updated
                    \<in> set (map unique_doctor_appointment_slot (appointments db))")
      case True
      then show ?thesis
        using assms changed by (simp add: update_appointment_def Let_def)
    next
      case False
      let ?row = "?updated\<lparr>updated_at := now\<rparr>"
      let ?db' = "db\<lparr>appointments :=
                       map (\<lambda>r. if id_apt r = aid then ?row else r) (appointments db)\<rparr>"
      have res: "update_appointment db aid u now = (Inr (Some ?row), ?db')"
        using assms changed False by (simp add: update_appointment_def Let_def)
      have rid: "id_apt ?row = aid"
        using aid by (simp add: setattr_appointment_def)
      have get': "get_appointment ?db' aid = Some ?row"
        using assms first_filter_map_update[OF _ rid] by (simp add: get_appointment_def)
      have others: "[r \<leftarrow> appointments ?db'. id_apt r \<noteq> aid] =
                    [r \<leftarrow> appointments db. id_apt r \<noteq> aid]"
        using filter_others_map_update[OF rid] by simp
      have frame: "id_apt ?row = id_apt a \<and> doctor_id ?row = doctor_id a \<and>
        patient_id ?row = patient_id a \<and>
        created_at ?row = created_at a \<and> duration ?row = duration a \<and>
        (au_appointment_date u = None \<longrightarrow> appointment_date ?row = appointment_date a) \<and>
        (au_appointment_time u = None \<longrightarrow> appointment_time ?row = appointment_time a) \<and>
        (au_reason u = None \<longrightarrow> reason ?row = reason a) \<and>
        (au_status u = None \<longrightarrow> status ?row = status a)"
        by (simp add: setattr_appointment_def)
      have sch: "schedules ?db' = schedules db"
        by simp
      show ?thesis
        apply (rule disjI2)
        apply (rule exI[of _ ?row])
        apply (rule exI[of _ ?db'])
        using res get' others frame sch by simp
    qed
  qed
qed

theorem update_appointment_frame_witness:
  "get_appointment db_booked 1 = Some appointment_10 \<and>
   (\<exists>a' db'. update_appointment db_booked 1 update_reason example_now = (Inr (Some a'), db') \<and>
      reason a' = ''Follow-up'' \<and>
      appointment_date a' = tuesday \<and> appointment_time a' = time_of 10 0 \<and>
      status a' = SCHEDULED \<and> doctor_id a' = 1 \<and> patient_id a' = 2)"
proof -
  have h: "get_appointment db_booked 1 = Some appointment_10"
    by (rule get_appointment_db_booked)
  have no_error: "update_appointment db_booked 1 update_reason example_now \<noteq>
                    (Inl (ValueError ''This time slot is already booked''), db_booked)"
    by (simp add: update_appointment_def h setattr_appointment_def update_reason_def
          appointment_10_def unique_doctor_appointment_slot_def Let_def)
  have set_reason: "\<And>a' db'. update_appointment db_booked 1 update_reason example_now =
                      (Inr (Some a'), db') \<Longrightarrow> reason a' = ''Follow-up''"
    by (auto simp add: update_appointment_def h setattr_appointment_def update_reason_def
          appointment_10_def unique_doctor_appointment_slot_def Let_def)
  from update_appointment_frame[OF h, of update_reason example_now] no_error
  have "\<exists>a' db'. update_appointment db_booked 1 update_reason example_now = (Inr (Some a'), db') \<and>
          doctor_id a' = doctor_id appointment_10 \<and> patient_id a' = patient_id appointment_10 \<and>
          (au_appointment_date update_reason = None \<longrightarrow>
             appointment_date a' = appointment_date appointment_10) \<and>
          (au_appointment_time update_reason = None \<longrightarrow>
             appointment_time a' = appointment_time appointment_10) \<and>
          (au_status update_reason = None \<longrightarrow> status a' = status appointment_10)"
    by (elim disjE exE conjE) (simp, intro exI conjI, assumption+)
  then obtain a' db' where
    r: "update_appointment db_booked 1 update_reason example_now = (Inr (Some a'), db')" and
    f: "doctor_id a' = doctor_id appointment_10" "patient_id a' = patient_id appointment_10"
       "au_appointment_date update_reason = None \<longrightarrow>
          appointment_date a' = appointment_date appointment_10"
       "au_appointment_time update_reason = None \<longrightarrow>
          appointment_time a' = appointment_time appointment_10"
       "au_status update_reason = None \<longrightarrow> status a' = status appointment_10"
    by (elim exE conjE) (rule that)
  from f have "appointment_date a' = tuesday \<and> appointment_time a' = time_of 10 0 \<and>
      status a' = SCHEDULED \<and> doctor_id a' = 1 \<and> patient_id a' = 2"
    by (simp add: update_reason_def appointment_10_def)
  with r set_reason[OF r] h show ?thesis
    by (intro conjI exI[of _ a'] exI[of _ db']) simp_all
qed

end
